theory Spec2Isabelle
  imports Complex_Main "HOL-Library.Multiset"
begin

section \<open>Data: exceptions, arrays and data frames\<close>

text \<open>
  The program is Python on numpy, pandas and scikit-learn. Its floating-point numbers are
  idealised as real numbers. A two-dimensional array is the list of its rows. A pandas
  DataFrame is its row labels (sample ids), its column labels (gene ids) and its values.
  Every exception the source can raise is a value of \<open>error\<close>, and a function that can
  raise returns \<open>error + 'a\<close> with \<open>Inl\<close> for the exception.
\<close>

datatype error = ValueError | AssertionError | AttributeError | KeyError | TypeError
  | IndexError | FileNotFoundError | CalledProcessError

type_synonym matrix = "real list list"

record frame =
  index :: "string list"
  columns :: "string list"
  vals :: matrix

definition is_matrix :: "nat \<Rightarrow> nat \<Rightarrow> 'a list list \<Rightarrow> bool" where
  "is_matrix n p m = (length m = n \<and> list_all (\<lambda>r. length r = p) m)"

definition shape :: "frame \<Rightarrow> nat \<times> nat" where
  "shape f = (length (index f), length (columns f))"

definition frame_ok :: "frame \<Rightarrow> bool" where
  "frame_ok f = is_matrix (length (index f)) (length (columns f)) (vals f)"

text \<open>
  \<open>pd.DataFrame(values, index=i, columns=c)\<close> raises ValueError when the shape of the
  values is not the one the labels imply.
\<close>

definition DataFrame :: "matrix \<Rightarrow> string list \<Rightarrow> string list \<Rightarrow> error + frame" where
  "DataFrame v i c =
     (if is_matrix (length i) (length c) v
      then Inr \<lparr>index = i, columns = c, vals = v\<rparr>
      else Inl ValueError)"

text \<open>\<open>str(n)\<close> for a non-negative integer: its decimal digits.\<close>

fun str_nat :: "nat \<Rightarrow> string" where
  "str_nat n =
     (if n < 10 then [''0123456789'' ! n] else str_nat (n div 10) @ [''0123456789'' ! (n mod 10)])"

declare str_nat.simps [simp del]

text \<open>\<open>df.T\<close>: labels swap and the values are transposed.\<close>

definition frame_T :: "frame \<Rightarrow> frame" where
  "frame_T f = \<lparr>index = columns f, columns = index f,
                vals = map (\<lambda>j. map (\<lambda>r. r ! j) (vals f)) [0..<length (columns f)]\<rparr>"

definition np_mean :: "real list \<Rightarrow> real" where
  "np_mean xs = sum_list xs / real (length xs)"

section \<open>The reconstruction score\<close>

text \<open>
  \<open>DataModel._approx_keras_binary_cross_entropy(x, z, p, epsilon)\<close>: the two masked
  assignments, the logit, and the mean over samples of \<open>p\<close> times the mean over features
  (\<open>axis=-1\<close>). The element-wise operations pair the entries of \<open>x\<close> and \<open>z\<close>, which
  have the same shape.
\<close>

definition approx_keras_binary_cross_entropy :: "matrix \<Rightarrow> matrix \<Rightarrow> real \<Rightarrow> real \<Rightarrow> real" where
  "approx_keras_binary_cross_entropy x z p epsilon =
     (let x1 = map (map (\<lambda>v. if v < epsilon then epsilon else v)) x;
          x2 = map (map (\<lambda>v. if v > 1 - epsilon then 1 - epsilon else v)) x1;
          x3 = map (map (\<lambda>v. ln (v / (1 - v)))) x2
      in np_mean (map (\<lambda>(xr, zr).
            p * np_mean (map (\<lambda>(a, b). - a * b + ln (1 + exp a)) (zip xr zr))) (zip x3 z)))"

text \<open>The score as the specification words it: clip, logit, mean of \<open>p\<close> times row means.\<close>

definition clip :: "real \<Rightarrow> real \<Rightarrow> real \<Rightarrow> real" where
  "clip lo hi v = max lo (min hi v)"

definition logit :: "real \<Rightarrow> real" where
  "logit v = ln (v / (1 - v))"

definition spec_score :: "matrix \<Rightarrow> matrix \<Rightarrow> real \<Rightarrow> real \<Rightarrow> real" where
  "spec_score x z p epsilon =
     np_mean (map (\<lambda>i.
        p * np_mean (map (\<lambda>j.
              - logit (clip epsilon (1 - epsilon) (x ! i ! j)) * (z ! i ! j)
              + ln (1 + exp (logit (clip epsilon (1 - epsilon) (x ! i ! j)))))
            [0..<length (x ! i)]))
       [0..<length x])"

section \<open>Normalisation: the scikit-learn scalers\<close>

text \<open>
  \<open>StandardScaler\<close> and \<open>MinMaxScaler\<close> of scikit-learn, with their default options, as
  their documentation defines them. \<open>fit\<close> rejects an array with no sample or no feature
  (ValueError) and otherwise learns one parameter pair per feature (column); a feature of
  zero spread gets scale 1. The variance is the population variance (\<open>ddof = 0\<close>).
  The fitted attributes \<open>mean_\<close>, \<open>scale_\<close> and \<open>min_\<close> are the fields
  \<open>fit_mean\<close>, \<open>fit_scale\<close> and \<open>fit_min\<close>.
\<close>

datatype scaler =
    StandardScaler (fit_mean: "real list") (fit_scale: "real list")
  | MinMaxScaler (fit_min: "real list") (fit_scale: "real list")

definition cols_of :: "frame \<Rightarrow> matrix" where
  "cols_of f = map (\<lambda>j. map (\<lambda>r. r ! j) (vals f)) [0..<length (columns f)]"

definition np_var :: "real list \<Rightarrow> real" where
  "np_var c = np_mean (map (\<lambda>v. (v - np_mean c)\<^sup>2) c)"

definition handle_zeros_in_scale :: "real \<Rightarrow> real" where
  "handle_zeros_in_scale s = (if s = 0 then 1 else s)"

definition StandardScaler_fit :: "frame \<Rightarrow> error + scaler" where
  "StandardScaler_fit X =
     (if index X = [] \<or> columns X = [] then Inl ValueError
      else Inr (StandardScaler (map np_mean (cols_of X))
                  (map (\<lambda>c. handle_zeros_in_scale (sqrt (np_var c))) (cols_of X))))"

definition MinMaxScaler_fit :: "frame \<Rightarrow> error + scaler" where
  "MinMaxScaler_fit X =
     (if index X = [] \<or> columns X = [] then Inl ValueError
      else let scale = map (\<lambda>c. 1 / handle_zeros_in_scale (Max (set c) - Min (set c))) (cols_of X)
           in Inr (MinMaxScaler (map (\<lambda>(c, s). 0 - Min (set c) * s) (zip (cols_of X) scale)) scale))"

text \<open>
  \<open>scaler.transform(X)\<close>, row by row: \<open>(x - mean_) / scale_\<close> for the standard scaler and
  \<open>x * scale_ + min_\<close> for the min-max scaler.
\<close>

fun scaler_transform :: "scaler \<Rightarrow> matrix \<Rightarrow> matrix" where
  "scaler_transform (StandardScaler m s) X =
     map (\<lambda>r. map (\<lambda>(x, m, s). (x - m) / s) (zip r (zip m s))) X"
| "scaler_transform (MinMaxScaler m s) X =
     map (\<lambda>r. map (\<lambda>(x, m, s). x * s + m) (zip r (zip m s))) X"

section \<open>The model container: \<open>DataModel\<close>\<close>

text \<open>
  A fitted scikit-learn decomposition is kept as the three things the container reads
  from it: the component matrix and the forward and inverse maps. The attributes that one
  compression method sets on the container are grouped in one record per method; an
  attribute that has not been set is \<open>None\<close>.
\<close>

record estimator =
  components :: matrix
  est_transform :: "matrix \<Rightarrow> error + matrix"
  inverse_transform :: "matrix \<Rightarrow> error + matrix"

record method_attrs =
  m_fit :: estimator
  m_df :: frame
  m_weights :: frame
  m_test_df :: "matrix option"

record plier_attrs =
  plier_df :: frame
  plier_weights :: frame
  plier_test_df :: "matrix option"

record DataModel =
  filename :: "string option"
  df :: frame
  gene_modules :: "frame option"
  num_samples :: nat
  num_genes :: nat
  test_filename :: "string option"
  test_df :: "frame option"
  num_test_shape :: "(nat \<times> nat) option"
  transformation :: "string option"
  transform_fit :: "scaler option"
  transform_test_fit :: "scaler option"
  pca_attrs :: "method_attrs option"
  ica_attrs :: "method_attrs option"
  nmf_attrs :: "method_attrs option"
  plier_attrs :: "plier_attrs option"

text \<open>
  \<open>DataModel.__init__\<close>. \<open>read_table\<close> stands for \<open>pd.read_table(path, index_col=0)\<close>
  on the files present. The default \<open>df=False\<close> is \<open>None\<close> here: it has no \<open>shape\<close>
  (AttributeError). A non-empty \<open>select_columns\<close> reads \<open>self.test_df\<close> before
  the constructor has assigned it, which raises AttributeError (after the column selection
  itself, which raises IndexError on a position out of range). \<open>gene_modules\<close> is a flat
  list of module labels: the transposed one-column frame gets the single row label
  \<open>modules\<close>. For the empty list the frame has no column, and pandas lets the row labels
  of a frame of no column be set to any length, so the constructor succeeds there too.
\<close>

definition init_DataModel ::
  "(string \<Rightarrow> error + frame) \<Rightarrow> string option \<Rightarrow> frame option \<Rightarrow> nat list \<Rightarrow>
   real list option \<Rightarrow> string option \<Rightarrow> frame option \<Rightarrow> error + DataModel" where
  "init_DataModel read_table filename_arg df_arg select_columns gene_modules_arg
       test_filename_arg test_df_arg =
     (case (case filename_arg of None \<Rightarrow> Inr df_arg
            | Some f \<Rightarrow> (case read_table f of Inl e \<Rightarrow> Inl e | Inr t \<Rightarrow> Inr (Some t))) of
        Inl e \<Rightarrow> Inl e
      | Inr None \<Rightarrow> Inl AttributeError
      | Inr (Some d) \<Rightarrow>
          if select_columns \<noteq> [] then
            (if list_all (\<lambda>c. c < length (columns d)) select_columns
             then Inl AttributeError else Inl IndexError)
          else
            let gm = map_option (\<lambda>g. \<lparr>index = [''modules''],
                        columns = map str_nat [0..<length g], vals = [g]\<rparr>) gene_modules_arg;
                dm = \<lparr>filename = filename_arg, df = d, gene_modules = gm,
                      num_samples = length (index d), num_genes = length (columns d),
                      test_filename = test_filename_arg, test_df = test_df_arg,
                      num_test_shape = None, transformation = None,
                      transform_fit = None, transform_test_fit = None,
                      pca_attrs = None, ica_attrs = None, nmf_attrs = None,
                      plier_attrs = None\<rparr>
            in if test_filename_arg \<noteq> None \<and> test_df_arg = None then
                 (case read_table (the test_filename_arg) of
                    Inl e \<Rightarrow> Inl e
                  | Inr t \<Rightarrow>
                      if num_genes dm = length (columns t)
                      then Inr (dm\<lparr>test_df := Some t,
                                   num_test_shape := Some (length (index t), length (columns t))\<rparr>)
                      else Inl AssertionError)
               else Inr dm)"

text \<open>
  \<open>DataModel.transform(how)\<close>: a scaler is fitted on the training frame and applied to
  it; when there is a test frame, a second scaler is fitted on the test frame and applied
  to the test frame.
\<close>

definition fit_scaler :: "string \<Rightarrow> frame \<Rightarrow> error + scaler" where
  "fit_scaler how X =
     (if how = ''zscore'' then StandardScaler_fit X
      else if how = ''zeroone'' then MinMaxScaler_fit X
      else Inl ValueError)"

definition transform :: "string \<Rightarrow> DataModel \<Rightarrow> error + DataModel" where
  "transform how dm =
     (case fit_scaler how (df dm) of
        Inl e \<Rightarrow> Inl e
      | Inr fit \<Rightarrow>
          (case DataFrame (scaler_transform fit (vals (df dm))) (index (df dm)) (columns (df dm)) of
             Inl e \<Rightarrow> Inl e
           | Inr d \<Rightarrow>
               let dm1 = dm\<lparr>transformation := Some how, transform_fit := Some fit, df := d\<rparr>
               in (case test_df dm1 of
                     None \<Rightarrow> Inr dm1
                   | Some t \<Rightarrow>
                       (case fit_scaler how t of
                          Inl e \<Rightarrow> Inl e
                        | Inr test_fit \<Rightarrow>
                            (case DataFrame (scaler_transform test_fit (vals t)) (index t) (columns t) of
                               Inl e \<Rightarrow> Inl e
                             | Inr t' \<Rightarrow>
                                 Inr (dm1\<lparr>transform_test_fit := Some test_fit,
                                          test_df := Some t'\<rparr>))))))"

section \<open>The scikit-learn decompositions: \<open>pca\<close>, \<open>ica\<close>, \<open>nmf\<close>\<close>

text \<open>
  The three methods have one body, which differs in the name prefix, in the estimator
  that is fitted and in the attributes that are set. \<open>fit_transform\<close> stands for
  \<open>decomposition.PCA(n_components=...).fit_transform\<close> (and \<open>FastICA\<close>, \<open>NMF\<close>): it
  fails or returns the fitted estimator and the training embedding, and nothing is
  assumed about the shapes of what it returns. \<open>old\<close> is the method's attribute group
  before the call: a test embedding of an earlier call stays when this call sets none.
  The second component of the result is the method's return value.
\<close>

definition colnames :: "string \<Rightarrow> nat \<Rightarrow> string list" where
  "colnames prefix n_components = map (\<lambda>x. prefix @ ''_'' @ str_nat x) [0..<n_components]"

definition fit_method ::
  "string \<Rightarrow> (matrix \<Rightarrow> error + estimator \<times> matrix) \<Rightarrow> nat \<Rightarrow> bool \<Rightarrow> bool \<Rightarrow>
   method_attrs option \<Rightarrow> DataModel \<Rightarrow> error + method_attrs \<times> matrix option" where
  "fit_method prefix fit_transform n_components transform_df transform_test_df old dm =
     (case fit_transform (vals (df dm)) of
        Inl e \<Rightarrow> Inl e
      | Inr (est, emb) \<Rightarrow>
          (case DataFrame emb (index (df dm)) (colnames prefix n_components) of
             Inl e \<Rightarrow> Inl e
           | Inr mdf \<Rightarrow>
               (case DataFrame (components est) (colnames prefix n_components) (columns (df dm)) of
                  Inl e \<Rightarrow> Inl e
                | Inr w \<Rightarrow>
                    let a = \<lparr>m_fit = est, m_df = mdf, m_weights = w,
                             m_test_df = (case old of None \<Rightarrow> None | Some b \<Rightarrow> m_test_df b)\<rparr>
                    in if transform_df then
                         (case est_transform est (vals (df dm)) of
                            Inl e \<Rightarrow> Inl e
                          | Inr out_df \<Rightarrow> Inr (a, Some out_df))
                       else if transform_test_df then
                         (case test_df dm of
                            None \<Rightarrow> Inl ValueError
                          | Some t \<Rightarrow>
                              (case est_transform est (vals t) of
                                 Inl e \<Rightarrow> Inl e
                               | Inr tt \<Rightarrow> Inr (a\<lparr>m_test_df := Some tt\<rparr>, None)))
                       else Inr (a, None))))"

definition pca ::
  "(matrix \<Rightarrow> error + estimator \<times> matrix) \<Rightarrow> nat \<Rightarrow> bool \<Rightarrow> bool \<Rightarrow> DataModel \<Rightarrow>
   error + DataModel \<times> matrix option" where
  "pca fit_transform n_components transform_df transform_test_df dm =
     (case fit_method ''pca'' fit_transform n_components transform_df transform_test_df
             (pca_attrs dm) dm of
        Inl e \<Rightarrow> Inl e
      | Inr (a, out) \<Rightarrow> Inr (dm\<lparr>pca_attrs := Some a\<rparr>, out))"

definition ica ::
  "(matrix \<Rightarrow> error + estimator \<times> matrix) \<Rightarrow> nat \<Rightarrow> bool \<Rightarrow> bool \<Rightarrow> DataModel \<Rightarrow>
   error + DataModel \<times> matrix option" where
  "ica fit_transform n_components transform_df transform_test_df dm =
     (case fit_method ''ica'' fit_transform n_components transform_df transform_test_df
             (ica_attrs dm) dm of
        Inl e \<Rightarrow> Inl e
      | Inr (a, out) \<Rightarrow> Inr (dm\<lparr>ica_attrs := Some a\<rparr>, out))"

definition nmf ::
  "(matrix \<Rightarrow> error + estimator \<times> matrix) \<Rightarrow> nat \<Rightarrow> bool \<Rightarrow> bool \<Rightarrow> DataModel \<Rightarrow>
   error + DataModel \<times> matrix option" where
  "nmf fit_transform n_components transform_df transform_test_df dm =
     (case fit_method ''nmf'' fit_transform n_components transform_df transform_test_df
             (nmf_attrs dm) dm of
        Inl e \<Rightarrow> Inl e
      | Inr (a, out) \<Rightarrow> Inr (dm\<lparr>nmf_attrs := Some a\<rparr>, out))"

section \<open>The pathway-regularised factorisation: \<open>plier\<close>\<close>

text \<open>
  The output directory of the solver holds, for each \<open>(n_components, seed, shuffled)\<close>,
  the three files \<open>_z.tsv\<close>, \<open>_b.tsv\<close> and \<open>_l2.tsv\<close> whose names the source builds from
  these three values; a file that does not exist is \<open>None\<close>, and a file that exists is
  what \<open>pd.read_csv\<close> or \<open>np.loadtxt\<close> reads from it.
\<close>

record plier_files =
  z_tsv :: "frame option"
  b_tsv :: "frame option"
  l2_tsv :: "real option"

type_synonym plier_output = "nat \<times> nat \<times> bool \<Rightarrow> plier_files"

text \<open>
  Modelled from the spec: \<open>scripts/run_plier.R\<close>, which \<open>plier\<close> runs as a subprocess, is
  not among the sources. It is the parameter \<open>run_plier\<close>, given the expression
  frame, the rank, the seed, the pathways file and the verbose flag: \<open>None\<close> is a non-zero
  exit status (\<open>subprocess.check_call\<close> raises CalledProcessError), and \<open>Some (Z, B, l2)\<close>
  are the three outputs it leaves on disk: the weights (genes by components), the
  embedding (components by samples) and the regularisation scalar.
\<close>

type_synonym plier_solver = "frame \<Rightarrow> nat \<Rightarrow> nat \<Rightarrow> string \<Rightarrow> bool \<Rightarrow> (frame \<times> frame \<times> real) option"

text \<open>
  Modelled from the spec: the shapes of the outputs of the solver run with the expression
  frame \<open>d\<close> and the rank \<open>k\<close>, as the specification of the subprocess boundary gives
  them: the weights \<open>Z\<close> are genes by \<open>k\<close>, the embedding \<open>B\<close> is \<open>k\<close> by samples.
\<close>

definition plier_output_shapes :: "frame \<Rightarrow> nat \<Rightarrow> frame \<Rightarrow> frame \<Rightarrow> bool" where
  "plier_output_shapes d k Z B =
     (frame_ok Z \<and> length (columns Z) = k
      \<and> frame_ok B \<and> length (index B) = k \<and> length (columns B) = length (index d))"

text \<open>
  \<open>scipy.stats.zscore\<close> of one column. For a column of no value or of zero spread scipy
  gives nan entries, written \<open>None\<close> here.
\<close>

definition scipy_zscore :: "real list \<Rightarrow> real list option" where
  "scipy_zscore a =
     (if a = [] \<or> np_var a = 0 then None
      else Some (map (\<lambda>v. (v - np_mean a) / sqrt (np_var a)) a))"

text \<open>\<open>df[labels]\<close>: the named columns in the order asked for; KeyError when one is missing.\<close>

fun position :: "'a \<Rightarrow> 'a list \<Rightarrow> nat" where
  "position a [] = 0"
| "position a (x # xs) = (if x = a then 0 else Suc (position a xs))"

definition getitem_columns :: "frame \<Rightarrow> string list \<Rightarrow> error + frame" where
  "getitem_columns f labels =
     (if list_all (\<lambda>l. l \<in> set (columns f)) labels
      then Inr \<lparr>index = index f, columns = labels,
                vals = map (\<lambda>r. map (\<lambda>l. r ! position l (columns f)) labels) (vals f)\<rparr>
      else Inl KeyError)"

text \<open>
  \<open>DataModel._plier_on_test_data(X, weights, lambda_2)\<close>. \<open>ridge\<close> stands for
  \<open>sklearn.linear_model.ridge_regression(X, y, alpha, solver='svd')\<close>. The rows of
  \<open>X.apply(zscore).T\<close> are the standardised columns of \<open>X\<close>; scikit-learn validates its
  input and raises ValueError on a nan entry.
\<close>

type_synonym ridge_solver = "matrix \<Rightarrow> matrix \<Rightarrow> real \<Rightarrow> error + matrix"

definition plier_on_test_data :: "ridge_solver \<Rightarrow> frame \<Rightarrow> frame \<Rightarrow> real \<Rightarrow> error + matrix" where
  "plier_on_test_data ridge X weights lambda_2 =
     (let zs = map scipy_zscore (cols_of X)
      in if list_all (\<lambda>c. c \<noteq> None) zs
         then ridge (vals (frame_T weights)) (map the zs) lambda_2
         else Inl ValueError)"

text \<open>
  \<open>DataModel.plier\<close>. The result is the container, the return value and the output
  directory after the call.
\<close>

definition plier ::
  "plier_solver \<Rightarrow> ridge_solver \<Rightarrow> nat \<Rightarrow> string \<Rightarrow> bool \<Rightarrow> bool \<Rightarrow> bool \<Rightarrow> nat \<Rightarrow> bool \<Rightarrow> bool \<Rightarrow>
   plier_output \<Rightarrow> DataModel \<Rightarrow> error + DataModel \<times> frame option \<times> plier_output" where
  "plier run_plier ridge n_components pathways_file transform_df transform_test_df shuffled seed
       verbose skip_cache out dm =
     (let key = (n_components, seed, shuffled)
      in case (if skip_cache \<or> z_tsv (out key) = None \<or> b_tsv (out key) = None then
                 (case run_plier (df dm) n_components seed pathways_file verbose of
                    None \<Rightarrow> Inl CalledProcessError
                  | Some (Z, B, l2) \<Rightarrow>
                      Inr (out(key := \<lparr>z_tsv = Some Z, b_tsv = Some B, l2_tsv = Some l2\<rparr>)))
               else Inr out) of
           Inl e \<Rightarrow> Inl e
         | Inr out1 \<Rightarrow>
             (case (b_tsv (out1 key), z_tsv (out1 key), l2_tsv (out1 key)) of
                (Some B, Some Z, Some plier_l2) \<Rightarrow>
                  let pdf = frame_T B;
                      pw = frame_T Z;
                      out2 = (if skip_cache
                              then out1(key := \<lparr>z_tsv = None, b_tsv = None, l2_tsv = None\<rparr>)
                              else out1);
                      a = \<lparr>plier_df = pdf, plier_weights = pw,
                           plier_test_df = (case plier_attrs dm of None \<Rightarrow> None
                                            | Some b \<Rightarrow> plier_test_df b)\<rparr>
                  in (case test_df dm of
                        None \<Rightarrow> Inl TypeError
                      | Some t \<Rightarrow>
                          (case getitem_columns t (columns pw) of
                             Inl e \<Rightarrow> Inl e
                           | Inr test_df_filtered \<Rightarrow>
                               if transform_df then Inr (dm\<lparr>plier_attrs := Some a\<rparr>, Some pdf, out2)
                               else if transform_test_df then
                                 (case plier_on_test_data ridge test_df_filtered pw plier_l2 of
                                    Inl e \<Rightarrow> Inl e
                                  | Inr r \<Rightarrow>
                                      Inr (dm\<lparr>plier_attrs := Some (a\<lparr>plier_test_df := Some r\<rparr>)\<rparr>,
                                           None, out2))
                               else Inr (dm\<lparr>plier_attrs := Some a\<rparr>, None, out2)))
              | _ \<Rightarrow> Inl FileNotFoundError))"

text \<open>
  The three outputs of the fit that a call of \<open>plier\<close> reads: those the solver leaves
  when it runs (on \<open>skip_cache\<close>, or when one of the two matrices is missing), and the
  files already in the output directory otherwise.
\<close>

definition fit_outputs ::
  "plier_solver \<Rightarrow> nat \<Rightarrow> string \<Rightarrow> bool \<Rightarrow> nat \<Rightarrow> bool \<Rightarrow> bool \<Rightarrow> plier_output \<Rightarrow> DataModel \<Rightarrow>
   frame option \<times> frame option \<times> real option" where
  "fit_outputs run_plier n_components pathways_file shuffled seed verbose skip_cache out dm =
     (let key = (n_components, seed, shuffled)
      in if skip_cache \<or> z_tsv (out key) = None \<or> b_tsv (out key) = None then
           (case run_plier (df dm) n_components seed pathways_file verbose of
              None \<Rightarrow> (None, None, None)
            | Some (Z, B, l2) \<Rightarrow> (Some Z, Some B, Some l2))
         else (z_tsv (out key), b_tsv (out key), l2_tsv (out key)))"

section \<open>Random numbers\<close>

text \<open>
  The generator of \<open>numpy.random\<close> is a parameter: \<open>rk\<close> is its bounded draw, which
  takes a bound \<open>m\<close> and the generator state and gives a number in \<open>0..m\<close> and the next
  state. On it numpy builds \<open>randint\<close> (one draw per number), \<open>choice\<close> with its
  default \<open>replace=True\<close> (positions drawn by \<open>randint\<close>), and \<open>permutation\<close> (a copy
  shuffled from the last position down, each position swapped with a drawn earlier one).
\<close>

type_synonym 's bounded_draw = "nat \<Rightarrow> 's \<Rightarrow> nat \<times> 's"

definition draw_ok :: "'s bounded_draw \<Rightarrow> bool" where
  "draw_ok rk = (\<forall>m st. fst (rk m st) \<le> m)"

fun randint :: "'s bounded_draw \<Rightarrow> nat \<Rightarrow> nat \<Rightarrow> nat \<Rightarrow> 's \<Rightarrow> nat list \<times> 's" where
  "randint rk low high 0 st = ([], st)"
| "randint rk low high (Suc n) st =
     (let (v, st1) = rk (high - low - 1) st;
          (vs, st2) = randint rk low high n st1
      in ((low + v) # vs, st2))"

definition choice :: "'s bounded_draw \<Rightarrow> 'a list \<Rightarrow> nat \<Rightarrow> 's \<Rightarrow> 'a list \<times> 's" where
  "choice rk a n st =
     (let (idx, st1) = randint rk 0 (length a) n st in (map (\<lambda>i. a ! i) idx, st1))"

fun shuffle_down :: "'s bounded_draw \<Rightarrow> nat \<Rightarrow> 'a list \<Rightarrow> 's \<Rightarrow> 'a list \<times> 's" where
  "shuffle_down rk 0 x st = (x, st)"
| "shuffle_down rk (Suc i) x st =
     (let (j, st1) = rk (Suc i) st
      in shuffle_down rk i (x[Suc i := x ! j, j := x ! Suc i]) st1)"

definition permutation :: "'s bounded_draw \<Rightarrow> 'a list \<Rightarrow> 's \<Rightarrow> 'a list \<times> 's" where
  "permutation rk x st = shuffle_down rk (length x - 1) x st"

section \<open>The ensemble driver\<close>

text \<open>
  \<open>shuffle_train_genes(train_df)\<close>: every row is permuted, one after the other; the new
  frame takes its labels from the module-level \<open>rnaseq_train_df\<close>, not from the argument.
\<close>

fun permute_rows :: "'s bounded_draw \<Rightarrow> 'a list list \<Rightarrow> 's \<Rightarrow> 'a list list \<times> 's" where
  "permute_rows rk [] st = ([], st)"
| "permute_rows rk (r # rs) st =
     (let (p, st1) = permutation rk r st;
          (ps, st2) = permute_rows rk rs st1
      in (p # ps, st2))"

definition shuffle_train_genes :: "'s bounded_draw \<Rightarrow> frame \<Rightarrow> frame \<Rightarrow> 's \<Rightarrow> error + frame \<times> 's" where
  "shuffle_train_genes rk rnaseq_train_df train_df st =
     (let (rows, st1) = permute_rows rk (vals train_df) st
      in case DataFrame rows (index rnaseq_train_df) (columns rnaseq_train_df) of
           Inl e \<Rightarrow> Inl e
         | Inr shuf_df \<Rightarrow> Inr (shuf_df, st1))"

text \<open>
  \<open>DataModel.write_models\<close> and \<open>write_weight_matrices\<close>: the frames written, each
  under the prefix of its method, in the order \<open>pca\<close>, \<open>ica\<close>, \<open>nmf\<close>, \<open>plier\<close>. A
  method takes part when its \<open>_df\<close> attribute is set. The call reads the method's
  \<open>_test_df\<close> attribute, which raises AttributeError when no test embedding has been set.
\<close>

definition method_tables :: "DataModel \<Rightarrow> (string \<times> frame \<times> matrix option) list" where
  "method_tables dm =
     (case pca_attrs dm of None \<Rightarrow> [] | Some a \<Rightarrow> [(''pca'', m_df a, m_test_df a)])
     @ (case ica_attrs dm of None \<Rightarrow> [] | Some a \<Rightarrow> [(''ica'', m_df a, m_test_df a)])
     @ (case nmf_attrs dm of None \<Rightarrow> [] | Some a \<Rightarrow> [(''nmf'', m_df a, m_test_df a)])
     @ (case plier_attrs dm of None \<Rightarrow> [] | Some a \<Rightarrow> [(''plier'', plier_df a, plier_test_df a)])"

definition write_to_file :: "bool \<Rightarrow> frame option \<Rightarrow> frame \<Rightarrow> matrix option \<Rightarrow> error + frame" where
  "write_to_file test_set test method_df method_test_df =
     (case method_test_df of
        None \<Rightarrow> Inl AttributeError
      | Some mt \<Rightarrow>
          if test_set then
            (case test of
               None \<Rightarrow> Inl AttributeError
             | Some t \<Rightarrow> DataFrame mt (index t) (columns method_df))
          else Inr method_df)"

fun write_all ::
  "bool \<Rightarrow> frame option \<Rightarrow> (string \<times> frame \<times> matrix option) list \<Rightarrow> error + (string \<times> frame) list" where
  "write_all test_set test [] = Inr []"
| "write_all test_set test ((prefix, method_df, method_test_df) # rest) =
     (case write_to_file test_set test method_df method_test_df of
        Inl e \<Rightarrow> Inl e
      | Inr f \<Rightarrow>
          (case write_all test_set test rest of
             Inl e \<Rightarrow> Inl e
           | Inr fs \<Rightarrow> Inr ((prefix, f) # fs)))"

definition write_models :: "DataModel \<Rightarrow> bool \<Rightarrow> error + (string \<times> frame) list" where
  "write_models dm test_set = write_all test_set (test_df dm) (method_tables dm)"

definition write_weight_matrices :: "DataModel \<Rightarrow> (string \<times> frame) list" where
  "write_weight_matrices dm =
     (case pca_attrs dm of None \<Rightarrow> [] | Some a \<Rightarrow> [(''pca'', m_weights a)])
     @ (case ica_attrs dm of None \<Rightarrow> [] | Some a \<Rightarrow> [(''ica'', m_weights a)])
     @ (case nmf_attrs dm of None \<Rightarrow> [] | Some a \<Rightarrow> [(''nmf'', m_weights a)])
     @ (case plier_attrs dm of None \<Rightarrow> [] | Some a \<Rightarrow> [(''plier'', plier_weights a)])"

text \<open>
  \<open>DataModel.compile_reconstruction(test_set)\<close>. For a scikit-learn method the
  reconstruction is the estimator's inverse map of the embedding; it is scored against the
  input frame and then labelled like the input frame. A reconstruction whose shape is not
  the input's raises ValueError, in the element-wise product of the score or, at the
  latest, in the DataFrame constructor. For \<open>plier\<close> the call reads \<open>self.plier_fit\<close>,
  an attribute that no method sets: after the gene filter of the input (KeyError on a
  missing gene) it raises AttributeError.
\<close>

definition add_method_reconstruction ::
  "bool \<Rightarrow> frame option \<Rightarrow> real \<Rightarrow> method_attrs \<Rightarrow> error + real \<times> frame" where
  "add_method_reconstruction test_set input_df n_genes a =
     (case m_test_df a of
        None \<Rightarrow> Inl AttributeError
      | Some mt \<Rightarrow>
          (case inverse_transform (m_fit a) (if test_set then mt else vals (m_df a)) of
             Inl e \<Rightarrow> Inl e
           | Inr method_reconstruct \<Rightarrow>
               (case input_df of
                  None \<Rightarrow> Inl TypeError
                | Some inp \<Rightarrow>
                    (case DataFrame method_reconstruct (index inp) (columns inp) of
                       Inl e \<Rightarrow> Inl e
                     | Inr rf \<Rightarrow>
                         Inr (approx_keras_binary_cross_entropy method_reconstruct (vals inp)
                                n_genes (1 / 10 ^ 7), rf)))))"

fun add_methods ::
  "bool \<Rightarrow> frame option \<Rightarrow> real \<Rightarrow> (string \<times> method_attrs) list \<Rightarrow> error + (string \<times> real \<times> frame) list" where
  "add_methods test_set input_df n_genes [] = Inr []"
| "add_methods test_set input_df n_genes ((method_name, a) # rest) =
     (case add_method_reconstruction test_set input_df n_genes a of
        Inl e \<Rightarrow> Inl e
      | Inr (method_recon, rf) \<Rightarrow>
          (case add_methods test_set input_df n_genes rest of
             Inl e \<Rightarrow> Inl e
           | Inr rs \<Rightarrow> Inr ((method_name, method_recon, rf) # rs)))"

definition sklearn_methods :: "DataModel \<Rightarrow> (string \<times> method_attrs) list" where
  "sklearn_methods dm =
     (case pca_attrs dm of None \<Rightarrow> [] | Some a \<Rightarrow> [(''pca'', a)])
     @ (case ica_attrs dm of None \<Rightarrow> [] | Some a \<Rightarrow> [(''ica'', a)])
     @ (case nmf_attrs dm of None \<Rightarrow> [] | Some a \<Rightarrow> [(''nmf'', a)])"

definition compile_reconstruction ::
  "DataModel \<Rightarrow> bool \<Rightarrow> error + (string \<times> real) list \<times> (string \<times> frame) list" where
  "compile_reconstruction dm test_set =
     (let input_df = (if test_set then test_df dm else Some (df dm))
      in case add_methods test_set input_df (real (num_genes dm)) (sklearn_methods dm) of
           Inl e \<Rightarrow> Inl e
         | Inr rs \<Rightarrow>
             (case plier_attrs dm of
                None \<Rightarrow> Inr (map (\<lambda>(n, c, f). (n, c)) rs, map (\<lambda>(n, c, f). (n, f)) rs)
              | Some a \<Rightarrow>
                  (case input_df of
                     None \<Rightarrow> Inl TypeError
                   | Some inp \<Rightarrow>
                       (case getitem_columns inp (columns (plier_weights a)) of
                          Inl e \<Rightarrow> Inl e
                        | Inr plier_input_df \<Rightarrow> Inl AttributeError))))"

text \<open>
  The script \<open>1.compress_given_z.py\<close>. \<open>args\<close> are the parsed command-line arguments
  that the loop reads, and \<open>env\<close> collects what the script gets from its libraries: the
  random generator (\<open>np.random.seed\<close> and the bounded draw), the three decompositions
  (PCA is given the state of the global generator, which it may use; FastICA and NMF are
  given the seed), the ridge solver and the factorisation subprocess. The two expression
  frames are what \<open>du.load_expression_data\<close> returned. One row of the result table holds
  the scores of one seed on one split, a column per method.
\<close>

record args =
  algorithm :: "string option"
  num_components :: nat
  num_seeds :: nat
  pathways_file :: string
  shuffle :: bool
  verbose :: bool

record 's env =
  np_seed :: "nat \<Rightarrow> 's"
  rk_interval :: "'s bounded_draw"
  PCA :: "nat \<Rightarrow> 's \<Rightarrow> matrix \<Rightarrow> error + estimator \<times> matrix"
  FastICA :: "nat \<Rightarrow> nat \<Rightarrow> matrix \<Rightarrow> error + estimator \<times> matrix"
  NMF :: "nat \<Rightarrow> nat \<Rightarrow> matrix \<Rightarrow> error + estimator \<times> matrix"
  ridge_regression :: ridge_solver
  run_plier :: plier_solver
  read_table :: "string \<Rightarrow> error + frame"

record row =
  scores :: "(string \<times> real) list"
  seed :: nat
  shuffled :: bool
  data_type :: string

definition list_algorithms :: "string list" where
  "list_algorithms = [''pca'', ''ica'', ''nmf'', ''plier'']"

definition algs_to_run :: "args \<Rightarrow> string list" where
  "algs_to_run a =
     (case algorithm a of
        None \<Rightarrow> list_algorithms
      | Some alg \<Rightarrow> if alg = [] then list_algorithms else [alg])"

definition default_seed :: nat where
  "default_seed = 42"

definition draw_seeds :: "'s env \<Rightarrow> nat \<Rightarrow> nat \<Rightarrow> nat list" where
  "draw_seeds env master n = fst (choice (rk_interval env) [0..<1000000] n (np_seed env master))"

text \<open>
  \<open>pd.DataFrame(scores).assign(seed=..., shuffled=...)\<close>: one row, or none when no
  method was scored.
\<close>

definition assign_seed :: "(string \<times> real) list \<Rightarrow> nat \<Rightarrow> bool \<Rightarrow> row list" where
  "assign_seed sc s sh =
     (if sc = [] then [] else [\<lparr>scores = sc, seed = s, shuffled = sh, data_type = []\<rparr>])"

text \<open>
  The body of the loop, for one seed, in its three stages. Its state is the container and
  the solver's output directory; its result is the new state and the rows appended to the
  two result lists. First the generator is seeded and, under \<open>--shuffle\<close>, a new container
  is built on the shuffled training frame and normalised. Then the requested methods are
  fitted, in the order \<open>pca\<close>, \<open>ica\<close>, \<open>nmf\<close>, \<open>plier\<close>. Last the embeddings are
  written and the reconstructions are scored on both splits. The files that
  \<open>write_models\<close> and \<open>write_weight_matrices\<close> write are not part of the result (the
  latter raises nothing and is left out); what \<open>write_models\<close> raises is.
\<close>

definition prepare_model ::
  "'s env \<Rightarrow> args \<Rightarrow> frame \<Rightarrow> frame \<Rightarrow> nat \<Rightarrow> DataModel \<Rightarrow> error + DataModel \<times> 's" where
  "prepare_model env a rnaseq_train_df rnaseq_test_df s dm =
     (if shuffle a then
        (case shuffle_train_genes (rk_interval env) rnaseq_train_df rnaseq_train_df
                (np_seed env s) of
           Inl e \<Rightarrow> Inl e
         | Inr (shuffled_train_df, st1) \<Rightarrow>
             (case init_DataModel (read_table env) None (Some shuffled_train_df) [] None
                     None (Some rnaseq_test_df) of
                Inl e \<Rightarrow> Inl e
              | Inr dm0 \<Rightarrow>
                  (case transform ''zscore'' dm0 of
                     Inl e \<Rightarrow> Inl e
                   | Inr dm1 \<Rightarrow> Inr (dm1, st1))))
      else Inr (dm, np_seed env s))"

definition fit_models ::
  "'s env \<Rightarrow> args \<Rightarrow> nat \<Rightarrow> 's \<Rightarrow> plier_output \<Rightarrow> DataModel \<Rightarrow> error + DataModel \<times> plier_output" where
  "fit_models env a s st files dm1 =
     (let k = num_components a; algs = algs_to_run a
      in case (if ''pca'' \<in> set algs then
                 (case pca (PCA env k st) k False True dm1 of
                    Inl e \<Rightarrow> Inl e | Inr (d, out) \<Rightarrow> Inr d)
               else Inr dm1) of
           Inl e \<Rightarrow> Inl e
         | Inr dm2 \<Rightarrow>
         (case (if ''ica'' \<in> set algs then
                  (case ica (FastICA env k s) k False True dm2 of
                     Inl e \<Rightarrow> Inl e | Inr (d, out) \<Rightarrow> Inr d)
                else Inr dm2) of
           Inl e \<Rightarrow> Inl e
         | Inr dm3 \<Rightarrow>
         (case (if ''nmf'' \<in> set algs then
                  (case nmf (NMF env k s) k False True dm3 of
                     Inl e \<Rightarrow> Inl e | Inr (d, out) \<Rightarrow> Inr d)
                else Inr dm3) of
           Inl e \<Rightarrow> Inl e
         | Inr dm4 \<Rightarrow>
             if ''plier'' \<in> set algs then
               (case plier (run_plier env) (ridge_regression env) k (pathways_file a) False True
                       (shuffle a) s (verbose a) False files dm4 of
                  Inl e \<Rightarrow> Inl e | Inr (d, out, files1) \<Rightarrow> Inr (d, files1))
             else Inr (dm4, files))))"

definition evaluate_models :: "DataModel \<Rightarrow> nat \<Rightarrow> bool \<Rightarrow> error + row list \<times> row list" where
  "evaluate_models dm s sh =
     (case write_models dm False of
        Inl e \<Rightarrow> Inl e
      | Inr z_files \<Rightarrow>
      (case write_models dm True of
        Inl e \<Rightarrow> Inl e
      | Inr test_z_files \<Rightarrow>
      (case compile_reconstruction dm False of
        Inl e \<Rightarrow> Inl e
      | Inr (full_reconstruction, reconstructed_matrices) \<Rightarrow>
      (case compile_reconstruction dm True of
        Inl e \<Rightarrow> Inl e
      | Inr (full_test_recon, test_recon_mat) \<Rightarrow>
          Inr (assign_seed full_reconstruction s sh, assign_seed full_test_recon s sh)))))"

definition seed_iteration ::
  "'s env \<Rightarrow> args \<Rightarrow> frame \<Rightarrow> frame \<Rightarrow> nat \<Rightarrow> DataModel \<times> plier_output \<Rightarrow>
   error + (DataModel \<times> plier_output) \<times> row list \<times> row list" where
  "seed_iteration env a rnaseq_train_df rnaseq_test_df s state =
     (case prepare_model env a rnaseq_train_df rnaseq_test_df s (fst state) of
        Inl e \<Rightarrow> Inl e
      | Inr (dm1, st) \<Rightarrow>
          (case fit_models env a s st (snd state) dm1 of
             Inl e \<Rightarrow> Inl e
           | Inr (dm5, files) \<Rightarrow>
               (case evaluate_models dm5 s (shuffle a) of
                  Inl e \<Rightarrow> Inl e
                | Inr (full_reconstruction, full_test_recon) \<Rightarrow>
                    Inr ((dm5, files), full_reconstruction, full_test_recon))))"

fun per_seed_loop ::
  "'s env \<Rightarrow> args \<Rightarrow> frame \<Rightarrow> frame \<Rightarrow> nat list \<Rightarrow> DataModel \<times> plier_output \<Rightarrow>
   row list list \<times> row list list \<Rightarrow>
   error + (DataModel \<times> plier_output) \<times> row list list \<times> row list list" where
  "per_seed_loop env a train test [] state results = Inr (state, results)"
| "per_seed_loop env a train test (s # random_seeds) state (reconstruction_results, test_reconstruction_results) =
     (case seed_iteration env a train test s state of
        Inl e \<Rightarrow> Inl e
      | Inr (state1, full_reconstruction, full_test_recon) \<Rightarrow>
          per_seed_loop env a train test random_seeds state1
            (reconstruction_results @ [full_reconstruction],
             test_reconstruction_results @ [full_test_recon]))"

text \<open>
  The whole run: the uncaught exception that ends it, or the table that is written last.
  \<open>pd.concat\<close> of an empty list of frames raises ValueError.
\<close>

definition run :: "'s env \<Rightarrow> args \<Rightarrow> frame \<Rightarrow> frame \<Rightarrow> plier_output \<Rightarrow> error + row list" where
  "run env a rnaseq_train_df rnaseq_test_df files =
     (case init_DataModel (read_table env) None (Some rnaseq_train_df) [] None None
             (Some rnaseq_test_df) of
        Inl e \<Rightarrow> Inl e
      | Inr dm0 \<Rightarrow>
          (case transform ''zscore'' dm0 of
             Inl e \<Rightarrow> Inl e
           | Inr dm \<Rightarrow>
               (case per_seed_loop env a rnaseq_train_df rnaseq_test_df
                       (draw_seeds env default_seed (num_seeds a)) (dm, files) ([], []) of
                  Inl e \<Rightarrow> Inl e
                | Inr (state, reconstruction_results, test_reconstruction_results) \<Rightarrow>
                    if reconstruction_results = [] \<or> test_reconstruction_results = []
                    then Inl ValueError
                    else Inr (map (\<lambda>r. r\<lparr>data_type := ''training''\<rparr>) (concat reconstruction_results)
                              @ map (\<lambda>r. r\<lparr>data_type := ''testing''\<rparr>)
                                  (concat test_reconstruction_results)))))"

section \<open>Concrete inputs\<close>

text \<open>
  Small inputs on which the definitions are evaluated: frames of two samples, a generator
  that counts, an estimator that keeps the first \<open>k\<close> coordinates (as scikit-learn does,
  it rejects a rank outside \<open>1..min(n_samples, n_features)\<close>, and its NMF variant rejects
  a negative entry), a ridge solver that treats every component on its own, which is the
  exact ridge solution for one component, and a factorisation solver that returns one
  component on the gene \<open>g1\<close>.
\<close>

definition ex_train :: frame where
  "ex_train = \<lparr>index = [''s1'', ''s2''], columns = [''g1''], vals = [[0], [2]]\<rparr>"

definition ex_test :: frame where
  "ex_test = \<lparr>index = [''t1'', ''t2''], columns = [''g1''], vals = [[0], [4]]\<rparr>"

definition ex_test_other :: frame where
  "ex_test_other = \<lparr>index = [''u1'', ''u2''], columns = [''g2''], vals = [[1], [7]]\<rparr>"

definition ex_train2 :: frame where
  "ex_train2 = \<lparr>index = [''s1'', ''s2''], columns = [''g1'', ''g2''], vals = [[0, 1], [2, 5]]\<rparr>"

definition ex_test2 :: frame where
  "ex_test2 = \<lparr>index = [''t1'', ''t2''], columns = [''g1'', ''g2''], vals = [[0, 3], [4, 7]]\<rparr>"

definition no_files :: "string \<Rightarrow> error + frame" where
  "no_files f = Inl FileNotFoundError"


definition ex_dm :: DataModel where
  "ex_dm = \<lparr>filename = None, df = ex_train, gene_modules = None,
            num_samples = 2, num_genes = 1, test_filename = None, test_df = Some ex_test,
            num_test_shape = None, transformation = None,
            transform_fit = None, transform_test_fit = None,
            pca_attrs = None, ica_attrs = None, nmf_attrs = None, plier_attrs = None\<rparr>"

definition ex_dm2 :: DataModel where
  "ex_dm2 = ex_dm\<lparr>df := ex_train2, num_genes := 2, test_df := Some ex_test2\<rparr>"

definition ex_draw :: "nat bounded_draw" where
  "ex_draw m st = (st mod Suc m, Suc st)"

definition ex_estimator :: "nat \<Rightarrow> nat \<Rightarrow> estimator" where
  "ex_estimator k p =
     \<lparr>components = map (\<lambda>i. map (\<lambda>j. if i = j then 1 else 0) [0..<p]) [0..<k],
      est_transform = (\<lambda>X. Inr (map (take k) X)),
      inverse_transform = (\<lambda>Y. Inr (map (\<lambda>r. r @ replicate (p - k) 0) Y))\<rparr>"

definition ex_fit :: "nat \<Rightarrow> matrix \<Rightarrow> error + estimator \<times> matrix" where
  "ex_fit k X =
     (if X = [] \<or> k = 0 \<or> k > min (length X) (length (hd X)) then Inl ValueError
      else Inr (ex_estimator k (length (hd X)), map (take k) X))"

definition ex_nmf :: "nat \<Rightarrow> matrix \<Rightarrow> error + estimator \<times> matrix" where
  "ex_nmf k X = (if list_ex (list_ex (\<lambda>v. v < 0)) X then Inl ValueError else ex_fit k X)"

definition ex_ridge :: ridge_solver where
  "ex_ridge X y alpha =
     (if X = [] \<or> y = [] then Inl ValueError
      else Inr (map (\<lambda>j. map (\<lambda>c. (\<Sum>(xr, yr) \<leftarrow> zip X y. xr ! c * yr ! j)
                                  / ((\<Sum>xr \<leftarrow> X. (xr ! c)\<^sup>2) + alpha))
                           [0..<length (hd X)])
                  [0..<length (hd y)]))"

definition ex_Z :: frame where
  "ex_Z = \<lparr>index = [''g1''], columns = [''LV1''], vals = [[2]]\<rparr>"

definition ex_B :: frame where
  "ex_B = \<lparr>index = [''LV1''], columns = [''s1'', ''s2''], vals = [[- 1 / 2, 1 / 2]]\<rparr>"

definition ex_solver :: plier_solver where
  "ex_solver d k s p v = Some (ex_Z, ex_B, 1)"

definition no_output :: plier_output where
  "no_output key = \<lparr>z_tsv = None, b_tsv = None, l2_tsv = None\<rparr>"

definition ex_output_no_genes :: plier_output where
  "ex_output_no_genes key =
     \<lparr>z_tsv = Some \<lparr>index = [], columns = [''LV1''], vals = []\<rparr>,
      b_tsv = Some ex_B, l2_tsv = Some 1\<rparr>"

definition ex_env :: "nat env" where
  "ex_env = \<lparr>np_seed = (\<lambda>n. n), rk_interval = ex_draw,
             PCA = (\<lambda>k st. ex_fit k), FastICA = (\<lambda>k s. ex_fit k), NMF = (\<lambda>k s. ex_nmf k),
             ridge_regression = ex_ridge, run_plier = ex_solver, read_table = no_files\<rparr>"

definition ex_args :: args where
  "ex_args = \<lparr>algorithm = Some ''pca'', num_components = 1, num_seeds = 2,
              pathways_file = ''canonical_mapped.tsv'', shuffle = False, verbose = False\<rparr>"

text \<open>
  An environment in which the FastICA fit raises ValueError for the seed 43 alone, and
  the arguments of a run of three seeds that asks for \<open>ica\<close>.
\<close>

definition ex_env_ica :: "nat env" where
  "ex_env_ica = ex_env\<lparr>FastICA := (\<lambda>k s X. if s = 43 then Inl ValueError else ex_fit k X)\<rparr>"

definition ex_args_ica :: args where
  "ex_args_ica = ex_args\<lparr>algorithm := Some ''ica'', num_seeds := 3\<rparr>"

text \<open>
  Two notions for the statements about the driver: a run asks for at least one of the
  three scikit-learn methods; a container carries attributes of such a method only if
  the run asks for the method.
\<close>

definition sklearn_requested :: "args \<Rightarrow> bool" where
  "sklearn_requested a =
     (''pca'' \<in> set (algs_to_run a) \<or> ''ica'' \<in> set (algs_to_run a)
      \<or> ''nmf'' \<in> set (algs_to_run a))"

definition only_requested :: "args \<Rightarrow> DataModel \<Rightarrow> bool" where
  "only_requested a dm =
     ((pca_attrs dm = None \<or> ''pca'' \<in> set (algs_to_run a))
      \<and> (ica_attrs dm = None \<or> ''ica'' \<in> set (algs_to_run a))
      \<and> (nmf_attrs dm = None \<or> ''nmf'' \<in> set (algs_to_run a)))"


section \<open>Verified properties\<close>

subsection \<open>Reconstruction score\<close>

lemma map_zip_nth:
  "length xs = length ys \<Longrightarrow>
   map (\<lambda>(a, b). f a b) (zip xs ys) = map (\<lambda>j. f (xs ! j) (ys ! j)) [0..<length xs]"
  by (rule nth_equalityI) simp_all

lemma two_assignments_clip:
  "0 < e \<Longrightarrow> e < 1 / 2 \<Longrightarrow>
   (let v1 = (if v < e then e else v) in if v1 > 1 - e then 1 - e else v1) = clip e (1 - e) v"
  by (auto simp: clip_def Let_def max_def min_def)

lemma clipped_rows:
  assumes "0 < e" "e < 1 / 2"
  shows "map (map (\<lambda>v. ln (v / (1 - v))))
          (map (map (\<lambda>v. if v > 1 - e then 1 - e else v))
            (map (map (\<lambda>v. if v < e then e else v)) x))
         = map (map (\<lambda>v. logit (clip e (1 - e) v))) x"
  using two_assignments_clip[OF assms]
  by (simp add: logit_def Let_def comp_def)

text \<open>
  C6. For a reconstruction \<open>x\<close> and an original \<open>z\<close> of the same shape, any feature
  count \<open>p\<close> and \<open>0 < epsilon < 1/2\<close>, the score the code computes is the one the
  specification describes: every entry of \<open>x\<close> clipped into \<open>[epsilon, 1 - epsilon]\<close>,
  the logit of it, and the mean over samples of \<open>p\<close> times the mean over features of
  \<open>- logit * z + ln (1 + exp logit)\<close>. (The mean of no value at all, which numpy gives
  as nan, is \<open>0 / 0 = 0\<close> on both sides.)
\<close>

theorem score_is_spec_score:
  assumes "0 < epsilon" and "epsilon < 1 / 2"
    and "list_all2 (\<lambda>xr zr. length xr = length zr) x z"
  shows "approx_keras_binary_cross_entropy x z p epsilon = spec_score x z p epsilon"
proof -
  have len: "length x = length z"
    using assms(3) by (rule list_all2_lengthD)
  have rows: "length (x ! i) = length (z ! i)" if "i < length x" for i
    using assms(3) that by (simp add: list_all2_conv_all_nth)
  let ?L = "map (map (\<lambda>v. logit (clip epsilon (1 - epsilon) v))) x"
  let ?g = "\<lambda>xr zr. p * np_mean (map (\<lambda>(a, b). - a * b + ln (1 + exp a)) (zip xr zr))"
  let ?R = "map (\<lambda>i.
        p * np_mean (map (\<lambda>j.
              - logit (clip epsilon (1 - epsilon) (x ! i ! j)) * (z ! i ! j)
              + ln (1 + exp (logit (clip epsilon (1 - epsilon) (x ! i ! j)))))
            [0..<length (x ! i)]))
       [0..<length x]"
  have "approx_keras_binary_cross_entropy x z p epsilon
        = np_mean (map (\<lambda>(xr, zr). ?g xr zr) (zip ?L z))"
    unfolding approx_keras_binary_cross_entropy_def Let_def
    by (simp only: clipped_rows[OF assms(1,2)])
  also have "map (\<lambda>(xr, zr). ?g xr zr) (zip ?L z) = map (\<lambda>i. ?g (?L ! i) (z ! i)) [0..<length ?L]"
    by (rule map_zip_nth) (simp add: len)
  also have "\<dots> = ?R"
  proof (rule nth_equalityI)
    show "length (map (\<lambda>i. ?g (?L ! i) (z ! i)) [0..<length ?L]) = length ?R"
      by simp
  next
    fix i assume "i < length (map (\<lambda>i. ?g (?L ! i) (z ! i)) [0..<length ?L])"
    then have i: "i < length x" by simp
    have "map (\<lambda>(a, b). - a * b + ln (1 + exp a)) (zip (?L ! i) (z ! i))
          = map (\<lambda>j. - (?L ! i ! j) * (z ! i ! j) + ln (1 + exp (?L ! i ! j))) [0..<length (?L ! i)]"
      by (rule map_zip_nth) (simp add: i rows)
    also have "\<dots> = map (\<lambda>j.
              - logit (clip epsilon (1 - epsilon) (x ! i ! j)) * (z ! i ! j)
              + ln (1 + exp (logit (clip epsilon (1 - epsilon) (x ! i ! j)))))
            [0..<length (x ! i)]"
      using i by simp
    finally show "map (\<lambda>i. ?g (?L ! i) (z ! i)) [0..<length ?L] ! i = ?R ! i"
      using i by simp
  qed
  finally show ?thesis by (simp add: spec_score_def)
qed

theorem score_is_spec_score_witness:
  "(0::real) < 1 / 10 \<and> (1::real) / 10 < 1 / 2
   \<and> list_all2 (\<lambda>xr zr. length xr = length zr) [[1 / 4, 3 / 4 :: real]] [[0, 1 :: real]]
   \<and> approx_keras_binary_cross_entropy [[1 / 4, 3 / 4]] [[0, 1]] 2 (1 / 10)
       = spec_score [[1 / 4, 3 / 4]] [[0, 1]] 2 (1 / 10)"
  using score_is_spec_score[of "1 / 10" "[[1 / 4, 3 / 4]]" "[[0, 1]]" 2] by simp

lemma no_clip_elem:
  fixes e v :: real
  assumes "e < v" and "v < 1 - e"
  shows "(if (if v < e then e else v) > 1 - e then 1 - e else (if v < e then e else v)) = v"
proof -
  have "\<not> v < e" and "\<not> v > 1 - e" using assms by linarith+
  then show ?thesis by simp
qed

lemma no_clip_row:
  fixes e :: real
  shows "list_all (\<lambda>v. e < v \<and> v < 1 - e) r \<Longrightarrow>
   map (\<lambda>v. if v > 1 - e then 1 - e else v) (map (\<lambda>v. if v < e then e else v) r) = r"
proof (induction r)
  case Nil
  then show ?case by simp
next
  case (Cons a r)
  then have "e < a" "a < 1 - e" by simp_all
  from no_clip_elem[OF this] Cons show ?case by simp
qed

lemma no_clip_inside:
  fixes e :: real
  shows "list_all (list_all (\<lambda>v. e < v \<and> v < 1 - e)) x \<Longrightarrow>
   map (map (\<lambda>v. if v > 1 - e then 1 - e else v)) (map (map (\<lambda>v. if v < e then e else v)) x) = x"
proof (induction x)
  case Nil
  then show ?case by simp
next
  case (Cons r x)
  then have "list_all (\<lambda>v. e < v \<and> v < 1 - e) r" by simp
  from no_clip_row[OF this] Cons show ?case by simp
qed

text \<open>
  C9. When every entry of \<open>x\<close> lies strictly inside \<open>(eps1, 1 - eps1)\<close> and strictly
  inside \<open>(eps2, 1 - eps2)\<close>, the score computed with \<open>eps1\<close> is the score computed
  with \<open>eps2\<close>: neither clipping changes an entry. (Both epsilons are then below 1/2.)
\<close>

theorem score_epsilon_invariant:
  assumes "list_all (list_all (\<lambda>v. eps1 < v \<and> v < 1 - eps1)) x"
    and "list_all (list_all (\<lambda>v. eps2 < v \<and> v < 1 - eps2)) x"
  shows "approx_keras_binary_cross_entropy x z p eps1 = approx_keras_binary_cross_entropy x z p eps2"
  unfolding approx_keras_binary_cross_entropy_def Let_def
  by (simp only: no_clip_inside[OF assms(1)] no_clip_inside[OF assms(2)])

theorem score_epsilon_invariant_witness:
  "list_all (list_all (\<lambda>v. 1 / 10 < v \<and> v < 1 - 1 / 10)) [[1 / 4, 3 / 4 :: real]]
   \<and> list_all (list_all (\<lambda>v. 1 / 5 < v \<and> v < 1 - 1 / 5)) [[1 / 4, 3 / 4 :: real]]
   \<and> approx_keras_binary_cross_entropy [[1 / 4, 3 / 4]] [[0, 1]] 2 (1 / 10)
       = approx_keras_binary_cross_entropy [[1 / 4, 3 / 4]] [[0, 1]] 2 (1 / 5)"
  using score_epsilon_invariant[of "1 / 10" "[[1 / 4, 3 / 4]]" "1 / 5" "[[0, 1]]" 2] by simp

subsection \<open>Evaluation of the concrete inputs\<close>

lemmas frame_defs = DataFrame_def is_matrix_def cols_of_def frame_T_def getitem_columns_def

lemmas scaler_defs = fit_scaler_def StandardScaler_fit_def MinMaxScaler_fit_def
  handle_zeros_in_scale_def np_mean_def np_var_def

lemmas method_defs = pca_def ica_def nmf_def fit_method_def colnames_def str_nat.simps

lemmas ex_method_defs = ex_fit_def ex_nmf_def ex_estimator_def ex_dm2_def ex_dm_def
  ex_train2_def ex_test2_def ex_train_def ex_test_def

subsection \<open>Normalisation\<close>

lemma ex_transform_zeroone:
  "transform ''zeroone'' ex_dm =
     Inr (ex_dm\<lparr>transformation := Some ''zeroone'',
                transform_fit := Some (MinMaxScaler [0] [1 / 2]),
                df := ex_train\<lparr>vals := [[0], [1]]\<rparr>,
                transform_test_fit := Some (MinMaxScaler [0] [1 / 4]),
                test_df := Some (ex_test\<lparr>vals := [[0], [1]]\<rparr>)\<rparr>)"
  by (simp add: transform_def frame_defs scaler_defs ex_dm_def ex_train_def ex_test_def)

lemma ex_transform_other:
  "transform ''zeroone'' (ex_dm\<lparr>test_df := Some ex_test_other\<rparr>) =
     Inr (ex_dm\<lparr>transformation := Some ''zeroone'',
                transform_fit := Some (MinMaxScaler [0] [1 / 2]),
                df := ex_train\<lparr>vals := [[0], [1]]\<rparr>,
                transform_test_fit := Some (MinMaxScaler [- 1 / 6] [1 / 6]),
                test_df := Some (ex_test_other\<lparr>vals := [[0], [1]]\<rparr>)\<rparr>)"
  by (simp add: transform_def frame_defs scaler_defs ex_dm_def ex_train_def ex_test_other_def)

text \<open>
  C1 (as amended). The parameters fitted for the training frame depend on the training
  frame only: two calls of \<open>transform\<close> that differ in the test frame alone fit the same
  scaler, the one fitted on the training frame, and give the same normalised training
  frame. The test frame, however, is normalised with a second scaler that is fitted on the
  test frame itself (\<open>transform_test_fit\<close>), not with the training scaler.
\<close>

theorem transform_fits:
  assumes "transform how (dm\<lparr>test_df := Some t1\<rparr>) = Inr d1"
    and "transform how (dm\<lparr>test_df := Some t2\<rparr>) = Inr d2"
  shows "\<exists>fit test_fit.
           fit_scaler how (df dm) = Inr fit \<and> transform_fit d1 = Some fit
         \<and> transform_fit d2 = Some fit \<and> df d2 = df d1
         \<and> vals (df d1) = scaler_transform fit (vals (df dm))
         \<and> fit_scaler how t1 = Inr test_fit \<and> transform_test_fit d1 = Some test_fit
         \<and> map_option vals (test_df d1) = Some (scaler_transform test_fit (vals t1))"
  using assms
  by (auto simp: transform_def DataFrame_def split: sum.splits if_splits)

theorem transform_fits_witness:
  "transform ''zeroone'' (ex_dm\<lparr>test_df := Some ex_test\<rparr>) =
     Inr (ex_dm\<lparr>transformation := Some ''zeroone'',
                transform_fit := Some (MinMaxScaler [0] [1 / 2]),
                df := ex_train\<lparr>vals := [[0], [1]]\<rparr>,
                transform_test_fit := Some (MinMaxScaler [0] [1 / 4]),
                test_df := Some (ex_test\<lparr>vals := [[0], [1]]\<rparr>)\<rparr>)
   \<and> transform ''zeroone'' (ex_dm\<lparr>test_df := Some ex_test_other\<rparr>) =
     Inr (ex_dm\<lparr>transformation := Some ''zeroone'',
                transform_fit := Some (MinMaxScaler [0] [1 / 2]),
                df := ex_train\<lparr>vals := [[0], [1]]\<rparr>,
                transform_test_fit := Some (MinMaxScaler [- 1 / 6] [1 / 6]),
                test_df := Some (ex_test_other\<lparr>vals := [[0], [1]]\<rparr>)\<rparr>)
   \<and> fit_scaler ''zeroone'' (df ex_dm) = Inr (MinMaxScaler [0] [1 / 2])
   \<and> fit_scaler ''zeroone'' ex_test = Inr (MinMaxScaler [0] [1 / 4])"
proof -
  have same: "ex_dm\<lparr>test_df := Some ex_test\<rparr> = ex_dm" by (simp add: ex_dm_def)
  have h1: "transform ''zeroone'' (ex_dm\<lparr>test_df := Some ex_test\<rparr>) =
     Inr (ex_dm\<lparr>transformation := Some ''zeroone'',
                transform_fit := Some (MinMaxScaler [0] [1 / 2]),
                df := ex_train\<lparr>vals := [[0], [1]]\<rparr>,
                transform_test_fit := Some (MinMaxScaler [0] [1 / 4]),
                test_df := Some (ex_test\<lparr>vals := [[0], [1]]\<rparr>)\<rparr>)"
    by (simp only: same ex_transform_zeroone)
  from transform_fits[OF h1 ex_transform_other] h1 ex_transform_other
  show ?thesis by auto
qed

text \<open>
  C1 as stated fails: with min-max scaling, the training column \<open>0, 2\<close> and the test
  column \<open>0, 4\<close>, the code returns the test column \<open>0, 1\<close> (scaled by the test
  frame's own range), where the parameters fitted on the training frame give \<open>0, 2\<close>.
\<close>

theorem normalised_test_counterexample:
  "transform ''zeroone'' ex_dm =
     Inr (ex_dm\<lparr>transformation := Some ''zeroone'',
                transform_fit := Some (MinMaxScaler [0] [1 / 2]),
                df := ex_train\<lparr>vals := [[0], [1]]\<rparr>,
                transform_test_fit := Some (MinMaxScaler [0] [1 / 4]),
                test_df := Some (ex_test\<lparr>vals := [[0], [1]]\<rparr>)\<rparr>)
   \<and> scaler_transform (MinMaxScaler [0] [1 / 2]) (vals ex_test) = [[0], [2]]"
  using ex_transform_zeroone by (simp add: ex_test_def)

subsection \<open>Construction\<close>





subsection \<open>Orientation of the weights\<close>

lemma length_colnames: "length (colnames prefix k) = k"
  by (simp add: colnames_def)

lemma fit_method_weights:
  assumes "fit_method prefix ft k td ttd old dm = Inr (a, out)"
  shows "index (m_weights a) = colnames prefix k \<and> columns (m_weights a) = columns (df dm)
         \<and> is_matrix k (length (columns (df dm))) (vals (m_weights a))"
  using assms
  by (auto simp: fit_method_def DataFrame_def length_colnames Let_def
      split: sum.splits if_splits option.splits prod.splits)

lemma plier_weights_frame:
  assumes "plier rp ridge k pf td ttd sh s vb sc out dm = Inr (dm', ret, out')"
  shows "\<exists>a Z B l2 t. plier_attrs dm' = Some a \<and> plier_weights a = frame_T Z
          \<and> plier_df a = frame_T B
          \<and> fit_outputs rp k pf sh s vb sc out dm = (Some Z, Some B, Some l2)
          \<and> test_df dm = Some t \<and> list_all (\<lambda>g. g \<in> set (columns t)) (index Z)"
  using assms
  apply (simp add: plier_def fit_outputs_def Let_def frame_T_def getitem_columns_def
      split: sum.splits if_splits option.splits prod.splits)
  apply auto
  done

lemma ex_pca:
  "pca (ex_fit 1) 1 False True ex_dm2 =
     Inr (ex_dm2\<lparr>pca_attrs := Some \<lparr>m_fit = ex_estimator 1 2,
            m_df = \<lparr>index = [''s1'', ''s2''], columns = [''pca_0''], vals = [[0], [2]]\<rparr>,
            m_weights = \<lparr>index = [''pca_0''], columns = [''g1'', ''g2''], vals = [[1, 0]]\<rparr>,
            m_test_df = Some [[0], [4]]\<rparr>\<rparr>, None)"
  by (simp add: method_defs frame_defs ex_method_defs numeral_2_eq_2)

lemma ex_ica:
  "ica (ex_fit 1) 1 False True ex_dm2 =
     Inr (ex_dm2\<lparr>ica_attrs := Some \<lparr>m_fit = ex_estimator 1 2,
            m_df = \<lparr>index = [''s1'', ''s2''], columns = [''ica_0''], vals = [[0], [2]]\<rparr>,
            m_weights = \<lparr>index = [''ica_0''], columns = [''g1'', ''g2''], vals = [[1, 0]]\<rparr>,
            m_test_df = Some [[0], [4]]\<rparr>\<rparr>, None)"
  by (simp add: method_defs frame_defs ex_method_defs numeral_2_eq_2)

lemma ex_nmf:
  "nmf (ex_nmf 1) 1 False True ex_dm2 =
     Inr (ex_dm2\<lparr>nmf_attrs := Some \<lparr>m_fit = ex_estimator 1 2,
            m_df = \<lparr>index = [''s1'', ''s2''], columns = [''nmf_0''], vals = [[0], [2]]\<rparr>,
            m_weights = \<lparr>index = [''nmf_0''], columns = [''g1'', ''g2''], vals = [[1, 0]]\<rparr>,
            m_test_df = Some [[0], [4]]\<rparr>\<rparr>, None)"
  by (simp add: method_defs frame_defs ex_method_defs numeral_2_eq_2)

lemma ex_plier:
  "plier ex_solver ex_ridge 1 ''pathways.tsv'' False True False 42 False False no_output ex_dm2 =
     Inr (ex_dm2\<lparr>plier_attrs := Some \<lparr>
            plier_df = \<lparr>index = [''s1'', ''s2''], columns = [''LV1''], vals = [[- 1 / 2], [1 / 2]]\<rparr>,
            plier_weights = \<lparr>index = [''LV1''], columns = [''g1''], vals = [[2]]\<rparr>,
            plier_test_df = Some [[- 2 / 5], [2 / 5]]\<rparr>\<rparr>,
          None,
          no_output((1, 42, False) := \<lparr>z_tsv = Some ex_Z, b_tsv = Some ex_B, l2_tsv = Some 1\<rparr>))"
  by (simp add: plier_def plier_on_test_data_def scipy_zscore_def np_var_def np_mean_def
      frame_defs ex_method_defs ex_solver_def ex_ridge_def ex_Z_def ex_B_def no_output_def)

text \<open>
  C7 (as amended). After a successful \<open>pca\<close>, \<open>ica\<close> or \<open>nmf\<close> with rank \<open>k\<close>
  the weight frame has the \<open>k\<close> component names as rows and the genes of the training
  frame as columns, with a \<open>k\<close> by \<open>n_genes\<close> value matrix (the DataFrame constructor
  rejects any other shape of the estimator's components). After a successful \<open>plier\<close>
  the weight frame is the transpose of the matrix \<open>Z\<close> of the fit: its rows are the
  components of \<open>Z\<close> and its columns are the genes of \<open>Z\<close>, the gene subset, all of
  which are genes of the test frame. When the outputs of the fit have the shapes that the
  solver is specified to leave (\<open>Z\<close> genes by \<open>k\<close>), the weight frame has \<open>k\<close> rows:
  its shape is \<open>k\<close> by the number of genes of \<open>Z\<close>, which need not be \<open>n_genes\<close>.
\<close>

theorem weights_orientation:
  "(pca ft k td ttd dm = Inr (dm', out) \<longrightarrow>
      (\<exists>a. pca_attrs dm' = Some a \<and> index (m_weights a) = colnames ''pca'' k
           \<and> columns (m_weights a) = columns (df dm)
           \<and> is_matrix k (length (columns (df dm))) (vals (m_weights a))))
   \<and> (ica ft k td ttd dm = Inr (dm', out) \<longrightarrow>
      (\<exists>a. ica_attrs dm' = Some a \<and> index (m_weights a) = colnames ''ica'' k
           \<and> columns (m_weights a) = columns (df dm)
           \<and> is_matrix k (length (columns (df dm))) (vals (m_weights a))))
   \<and> (nmf ft k td ttd dm = Inr (dm', out) \<longrightarrow>
      (\<exists>a. nmf_attrs dm' = Some a \<and> index (m_weights a) = colnames ''nmf'' k
           \<and> columns (m_weights a) = columns (df dm)
           \<and> is_matrix k (length (columns (df dm))) (vals (m_weights a))))
   \<and> (plier rp ridge k pf td ttd sh s vb sc files dm = Inr (dm', ret, files') \<longrightarrow>
      (\<exists>a Z B l2 t. plier_attrs dm' = Some a
           \<and> fit_outputs rp k pf sh s vb sc files dm = (Some Z, Some B, Some l2)
           \<and> index (plier_weights a) = columns Z \<and> columns (plier_weights a) = index Z
           \<and> is_matrix (length (columns Z)) (length (vals Z)) (vals (plier_weights a))
           \<and> test_df dm = Some t \<and> list_all (\<lambda>g. g \<in> set (columns t)) (index Z)
           \<and> (plier_output_shapes (df dm) k Z B \<longrightarrow>
                length (index (plier_weights a)) = k
                \<and> is_matrix k (length (columns (plier_weights a))) (vals (plier_weights a)))))"
proof (intro conjI impI)
  assume "pca ft k td ttd dm = Inr (dm', out)"
  then obtain a where "fit_method ''pca'' ft k td ttd (pca_attrs dm) dm = Inr (a, out)"
    and "pca_attrs dm' = Some a"
    by (auto simp: pca_def split: sum.splits prod.splits)
  with fit_method_weights[of "''pca''" ft k td ttd "pca_attrs dm" dm a out]
  show "\<exists>a. pca_attrs dm' = Some a \<and> index (m_weights a) = colnames ''pca'' k
           \<and> columns (m_weights a) = columns (df dm)
           \<and> is_matrix k (length (columns (df dm))) (vals (m_weights a))"
    by simp
next
  assume "ica ft k td ttd dm = Inr (dm', out)"
  then obtain a where "fit_method ''ica'' ft k td ttd (ica_attrs dm) dm = Inr (a, out)"
    and "ica_attrs dm' = Some a"
    by (auto simp: ica_def split: sum.splits prod.splits)
  with fit_method_weights[of "''ica''" ft k td ttd "ica_attrs dm" dm a out]
  show "\<exists>a. ica_attrs dm' = Some a \<and> index (m_weights a) = colnames ''ica'' k
           \<and> columns (m_weights a) = columns (df dm)
           \<and> is_matrix k (length (columns (df dm))) (vals (m_weights a))"
    by simp
next
  assume "nmf ft k td ttd dm = Inr (dm', out)"
  then obtain a where "fit_method ''nmf'' ft k td ttd (nmf_attrs dm) dm = Inr (a, out)"
    and "nmf_attrs dm' = Some a"
    by (auto simp: nmf_def split: sum.splits prod.splits)
  with fit_method_weights[of "''nmf''" ft k td ttd "nmf_attrs dm" dm a out]
  show "\<exists>a. nmf_attrs dm' = Some a \<and> index (m_weights a) = colnames ''nmf'' k
           \<and> columns (m_weights a) = columns (df dm)
           \<and> is_matrix k (length (columns (df dm))) (vals (m_weights a))"
    by simp
next
  assume "plier rp ridge k pf td ttd sh s vb sc files dm = Inr (dm', ret, files')"
  from plier_weights_frame[OF this]
  obtain a Z B l2 t where a: "plier_attrs dm' = Some a" "plier_weights a = frame_T Z"
    "fit_outputs rp k pf sh s vb sc files dm = (Some Z, Some B, Some l2)"
    "test_df dm = Some t" "list_all (\<lambda>g. g \<in> set (columns t)) (index Z)"
    by blast
  have T: "index (frame_T Z) = columns Z \<and> columns (frame_T Z) = index Z
        \<and> is_matrix (length (columns Z)) (length (vals Z)) (vals (frame_T Z))"
    by (simp add: frame_T_def is_matrix_def list_all_iff)
  then have "length (index (frame_T Z)) = k
        \<and> is_matrix k (length (columns (frame_T Z))) (vals (frame_T Z))"
    if "plier_output_shapes (df dm) k Z B"
    using that by (simp add: plier_output_shapes_def frame_ok_def is_matrix_def)
  with a T show "\<exists>a Z B l2 t. plier_attrs dm' = Some a
           \<and> fit_outputs rp k pf sh s vb sc files dm = (Some Z, Some B, Some l2)
           \<and> index (plier_weights a) = columns Z \<and> columns (plier_weights a) = index Z
           \<and> is_matrix (length (columns Z)) (length (vals Z)) (vals (plier_weights a))
           \<and> test_df dm = Some t \<and> list_all (\<lambda>g. g \<in> set (columns t)) (index Z)
           \<and> (plier_output_shapes (df dm) k Z B \<longrightarrow>
                length (index (plier_weights a)) = k
                \<and> is_matrix k (length (columns (plier_weights a))) (vals (plier_weights a)))"
    by auto
qed

theorem weights_orientation_witness:
  "pca (ex_fit 1) 1 False True ex_dm2 =
     Inr (ex_dm2\<lparr>pca_attrs := Some \<lparr>m_fit = ex_estimator 1 2,
            m_df = \<lparr>index = [''s1'', ''s2''], columns = [''pca_0''], vals = [[0], [2]]\<rparr>,
            m_weights = \<lparr>index = [''pca_0''], columns = [''g1'', ''g2''], vals = [[1, 0]]\<rparr>,
            m_test_df = Some [[0], [4]]\<rparr>\<rparr>, None)
   \<and> ica (ex_fit 1) 1 False True ex_dm2 =
     Inr (ex_dm2\<lparr>ica_attrs := Some \<lparr>m_fit = ex_estimator 1 2,
            m_df = \<lparr>index = [''s1'', ''s2''], columns = [''ica_0''], vals = [[0], [2]]\<rparr>,
            m_weights = \<lparr>index = [''ica_0''], columns = [''g1'', ''g2''], vals = [[1, 0]]\<rparr>,
            m_test_df = Some [[0], [4]]\<rparr>\<rparr>, None)
   \<and> nmf (ex_nmf 1) 1 False True ex_dm2 =
     Inr (ex_dm2\<lparr>nmf_attrs := Some \<lparr>m_fit = ex_estimator 1 2,
            m_df = \<lparr>index = [''s1'', ''s2''], columns = [''nmf_0''], vals = [[0], [2]]\<rparr>,
            m_weights = \<lparr>index = [''nmf_0''], columns = [''g1'', ''g2''], vals = [[1, 0]]\<rparr>,
            m_test_df = Some [[0], [4]]\<rparr>\<rparr>, None)
   \<and> plier ex_solver ex_ridge 1 ''pathways.tsv'' False True False 42 False False no_output ex_dm2 =
     Inr (ex_dm2\<lparr>plier_attrs := Some \<lparr>
            plier_df = \<lparr>index = [''s1'', ''s2''], columns = [''LV1''], vals = [[- 1 / 2], [1 / 2]]\<rparr>,
            plier_weights = \<lparr>index = [''LV1''], columns = [''g1''], vals = [[2]]\<rparr>,
            plier_test_df = Some [[- 2 / 5], [2 / 5]]\<rparr>\<rparr>,
          None,
          no_output((1, 42, False) := \<lparr>z_tsv = Some ex_Z, b_tsv = Some ex_B, l2_tsv = Some 1\<rparr>))
   \<and> is_matrix 1 (length (columns (df ex_dm2))) [[1, 0 :: real]]
   \<and> fit_outputs ex_solver 1 ''pathways.tsv'' False 42 False False no_output ex_dm2
       = (Some ex_Z, Some ex_B, Some 1)
   \<and> is_matrix (length (columns ex_Z)) (length (vals ex_Z)) [[2 :: real]]
   \<and> plier_output_shapes (df ex_dm2) 1 ex_Z ex_B
   \<and> is_matrix 1 (length [''g1'']) [[2 :: real]]"
  using
    weights_orientation[of "ex_fit 1" 1 False True ex_dm2 _ None ex_solver ex_ridge
       "''pathways.tsv''" False 42 False False no_output]
    weights_orientation[of "ex_nmf 1" 1 False True ex_dm2 _ None ex_solver ex_ridge
       "''pathways.tsv''" False 42 False False no_output]
    ex_pca ex_ica ex_nmf ex_plier
  by (simp add: is_matrix_def ex_dm2_def ex_train2_def ex_Z_def ex_B_def fit_outputs_def
      no_output_def ex_solver_def plier_output_shapes_def frame_ok_def)

text \<open>
  C7 as stated fails for \<open>plier\<close>: on a training frame of two genes, of which the
  solver's \<open>Z\<close> holds one, the weight frame has shape (1, 1), not (1, 2).
\<close>

theorem plier_weights_counterexample:
  "map_sum id (\<lambda>(d, ret, files). map_option (\<lambda>a. shape (plier_weights a)) (plier_attrs d))
     (plier ex_solver ex_ridge 1 ''pathways.tsv'' False True False 42 False False no_output ex_dm2)
     = Inr (Some (1, 1))
   \<and> length (columns (df ex_dm2)) = 2"
  using ex_plier by (simp add: shape_def ex_dm2_def ex_train2_def)

subsection \<open>The test embedding of the pathway-regularised variant\<close>









subsection \<open>Empty gene overlap\<close>

lemma plier_by_outputs:
  assumes fo: "fit_outputs rp k pf sh s vb sc files dm = (Some Z, Some B, Some l2)"
    and t: "test_df dm = Some t"
  shows "\<exists>files'. plier rp ridge k pf td ttd sh s vb sc files dm =
     (case getitem_columns t (index Z) of
        Inl e \<Rightarrow> Inl e
      | Inr X \<Rightarrow>
          if td then
            Inr (dm\<lparr>plier_attrs := Some \<lparr>plier_df = frame_T B, plier_weights = frame_T Z,
                   plier_test_df = (case plier_attrs dm of None \<Rightarrow> None
                                    | Some b \<Rightarrow> plier_test_df b)\<rparr>\<rparr>,
                 Some (frame_T B), files')
          else if ttd then
            (case plier_on_test_data ridge X (frame_T Z) l2 of
               Inl e \<Rightarrow> Inl e
             | Inr r \<Rightarrow>
                 Inr (dm\<lparr>plier_attrs := Some \<lparr>plier_df = frame_T B, plier_weights = frame_T Z,
                        plier_test_df = Some r\<rparr>\<rparr>, None, files'))
          else
            Inr (dm\<lparr>plier_attrs := Some \<lparr>plier_df = frame_T B, plier_weights = frame_T Z,
                   plier_test_df = (case plier_attrs dm of None \<Rightarrow> None
                                    | Some b \<Rightarrow> plier_test_df b)\<rparr>\<rparr>,
                 None, files'))"
proof (cases "sc \<or> z_tsv (files (k, s, sh)) = None \<or> b_tsv (files (k, s, sh)) = None")
  case True
  with fo have rp: "rp (df dm) k s pf vb = Some (Z, B, l2)"
    by (simp add: fit_outputs_def Let_def split: option.splits prod.splits)
  have cols: "columns (frame_T Z) = index Z" by (simp add: frame_T_def)
  show ?thesis
    using True rp t cols
    by (cases "getitem_columns t (index Z)")
       (auto simp: plier_def Let_def split: sum.splits)
next
  case False
  with fo have c: "z_tsv (files (k, s, sh)) = Some Z" "b_tsv (files (k, s, sh)) = Some B"
      "l2_tsv (files (k, s, sh)) = Some l2"
    by (simp_all add: fit_outputs_def Let_def)
  have cols: "columns (frame_T Z) = index Z" by (simp add: frame_T_def)
  from False have sc: "\<not> sc" by simp
  show ?thesis
    using sc c t cols
    by (cases "getitem_columns t (index Z)")
       (auto simp: plier_def Let_def split: sum.splits)
qed

text \<open>
  C5 (as amended). \<open>plier\<close> makes no check of the gene overlap. When the outputs of
  the fit are there and \<open>Z\<close> holds no gene, a call with \<open>transform_df\<close> succeeds and
  returns the training embedding (the transpose of \<open>B\<close>), with a weight frame of no
  column; a call with \<open>transform_test_df\<close> alone hands the ridge solver an empty weight
  matrix and an empty target, fails exactly when the solver does, with the solver's
  exception, and otherwise stores what the solver returns as the test embedding.
\<close>

theorem plier_no_overlap_check:
  assumes "fit_outputs rp k pf sh s vb sc files dm = (Some Z, Some B, Some l2)"
    and "index Z = []" and "test_df dm = Some t"
  shows "(\<exists>a files'. plier rp ridge k pf True ttd sh s vb sc files dm
                        = Inr (dm\<lparr>plier_attrs := Some a\<rparr>, Some (frame_T B), files')
                    \<and> plier_df a = frame_T B \<and> plier_weights a = frame_T Z
                    \<and> columns (plier_weights a) = [])
       \<and> (case ridge [] [] l2 of
            Inl e \<Rightarrow> plier rp ridge k pf False True sh s vb sc files dm = Inl e
          | Inr r \<Rightarrow> (\<exists>a files'. plier rp ridge k pf False True sh s vb sc files dm
                                   = Inr (dm\<lparr>plier_attrs := Some a\<rparr>, None, files')
                               \<and> plier_test_df a = Some r))"
proof -
  have g: "getitem_columns t (index Z)
           = Inr \<lparr>index = index t, columns = [], vals = map (\<lambda>r. []) (vals t)\<rparr>"
    by (simp add: getitem_columns_def assms(2))
  have c: "columns (frame_T Z) = []" by (simp add: frame_T_def assms(2))
  have p: "plier_on_test_data ridge \<lparr>index = index t, columns = [], vals = map (\<lambda>r. []) (vals t)\<rparr>
             (frame_T Z) l2 = ridge [] [] l2"
    by (simp add: plier_on_test_data_def cols_of_def frame_T_def assms(2))
  from plier_by_outputs[OF assms(1) assms(3), of ridge True ttd]
  obtain f1 where f1: "plier rp ridge k pf True ttd sh s vb sc files dm =
      Inr (dm\<lparr>plier_attrs := Some \<lparr>plier_df = frame_T B, plier_weights = frame_T Z,
                   plier_test_df = (case plier_attrs dm of None \<Rightarrow> None
                                    | Some b \<Rightarrow> plier_test_df b)\<rparr>\<rparr>,
           Some (frame_T B), f1)"
    by (auto simp: g)
  from plier_by_outputs[OF assms(1) assms(3), of ridge False True]
  obtain f2 where f2: "plier rp ridge k pf False True sh s vb sc files dm =
      (case ridge [] [] l2 of
         Inl e \<Rightarrow> Inl e
       | Inr r \<Rightarrow> Inr (dm\<lparr>plier_attrs := Some \<lparr>plier_df = frame_T B, plier_weights = frame_T Z,
                        plier_test_df = Some r\<rparr>\<rparr>, None, f2))"
    by (auto simp: g p)
  have first: "\<exists>a files'. plier rp ridge k pf True ttd sh s vb sc files dm
                        = Inr (dm\<lparr>plier_attrs := Some a\<rparr>, Some (frame_T B), files')
                    \<and> plier_df a = frame_T B \<and> plier_weights a = frame_T Z
                    \<and> columns (plier_weights a) = []"
    using f1 c by auto
  have second: "(case ridge [] [] l2 of
            Inl e \<Rightarrow> plier rp ridge k pf False True sh s vb sc files dm = Inl e
          | Inr r \<Rightarrow> (\<exists>a files'. plier rp ridge k pf False True sh s vb sc files dm
                                   = Inr (dm\<lparr>plier_attrs := Some a\<rparr>, None, files')
                               \<and> plier_test_df a = Some r))"
  proof (cases "ridge [] [] l2")
    case (Inl e)
    with f2 show ?thesis by simp
  next
    case (Inr r)
    with f2 have "plier rp ridge k pf False True sh s vb sc files dm
        = Inr (dm\<lparr>plier_attrs := Some \<lparr>plier_df = frame_T B, plier_weights = frame_T Z,
                        plier_test_df = Some r\<rparr>\<rparr>, None, f2)"
      by simp
    then have "\<exists>a files'. plier rp ridge k pf False True sh s vb sc files dm
                                   = Inr (dm\<lparr>plier_attrs := Some a\<rparr>, None, files')
                               \<and> plier_test_df a = Some r"
      by (intro exI[of _ "\<lparr>plier_df = frame_T B, plier_weights = frame_T Z,
                        plier_test_df = Some r\<rparr>"] exI[of _ f2]) simp
    with Inr show ?thesis by simp
  qed
  from first second show ?thesis by (rule conjI)
qed

theorem plier_no_overlap_check_witness:
  "fit_outputs ex_solver 1 ''pathways.tsv'' False 42 False False ex_output_no_genes ex_dm2
     = (Some \<lparr>index = [], columns = [''LV1''], vals = []\<rparr>, Some ex_B, Some 1)
   \<and> index \<lparr>index = [], columns = [''LV1''], vals = [] :: matrix\<rparr> = []
   \<and> test_df ex_dm2 = Some ex_test2
   \<and> ex_ridge [] [] 1 = Inl ValueError
   \<and> plier ex_solver ex_ridge 1 ''pathways.tsv'' False True False 42 False False
        ex_output_no_genes ex_dm2 = Inl ValueError"
proof -
  have f: "fit_outputs ex_solver 1 ''pathways.tsv'' False 42 False False ex_output_no_genes ex_dm2
     = (Some \<lparr>index = [], columns = [''LV1''], vals = []\<rparr>, Some ex_B, Some 1)"
    by (simp add: fit_outputs_def ex_output_no_genes_def)
  have i: "index \<lparr>index = [], columns = [''LV1''], vals = [] :: matrix\<rparr> = []" by simp
  have t: "test_df ex_dm2 = Some ex_test2" by (simp add: ex_dm2_def)
  have r: "ex_ridge [] [] 1 = Inl ValueError" by (simp add: ex_ridge_def)
  from plier_no_overlap_check[OF f i t, of ex_ridge] r f t
  show ?thesis by simp
qed

text \<open>
  C5 as stated fails: with cached outputs whose \<open>Z\<close> holds no gene, \<open>plier\<close> with
  \<open>transform_df\<close> returns an embedding instead of failing.
\<close>

theorem plier_empty_overlap_counterexample:
  "plier ex_solver ex_ridge 1 ''pathways.tsv'' True False False 42 False False ex_output_no_genes ex_dm2 =
     Inr (ex_dm2\<lparr>plier_attrs := Some \<lparr>
            plier_df = \<lparr>index = [''s1'', ''s2''], columns = [''LV1''], vals = [[- 1 / 2], [1 / 2]]\<rparr>,
            plier_weights = \<lparr>index = [''LV1''], columns = [], vals = [[]]\<rparr>,
            plier_test_df = None\<rparr>\<rparr>,
          Some \<lparr>index = [''s1'', ''s2''], columns = [''LV1''], vals = [[- 1 / 2], [1 / 2]]\<rparr>,
          ex_output_no_genes)"
  by (simp add: plier_def Let_def frame_defs ex_method_defs ex_B_def ex_output_no_genes_def)

subsection \<open>The shuffled negative control\<close>

lemma shuffle_down_mset:
  assumes "draw_ok rk"
  shows "i < length x \<Longrightarrow> mset (fst (shuffle_down rk i x st)) = mset x"
proof (induction i arbitrary: x st)
  case 0
  then show ?case by simp
next
  case (Suc i)
  obtain j st1 where d: "rk (Suc i) st = (j, st1)" by (cases "rk (Suc i) st")
  from assms have "fst (rk (Suc i) st) \<le> Suc i" unfolding draw_ok_def by blast
  with d Suc.prems have j: "j < length x" by simp
  let ?x = "x[Suc i := x ! j, j := x ! Suc i]"
  have sw: "mset ?x = mset x" using Suc.prems j by (simp add: mset_swap)
  have "i < length ?x" using Suc.prems by simp
  from Suc.IH[OF this, of st1] sw d show ?case by simp
qed

lemma permutation_mset:
  assumes "draw_ok rk"
  shows "mset (fst (permutation rk x st)) = mset x"
proof (cases x)
  case Nil
  then show ?thesis by (simp add: permutation_def)
next
  case (Cons a xs)
  then have "length x - 1 < length x" by simp
  from shuffle_down_mset[OF assms this] show ?thesis by (simp add: permutation_def)
qed

lemma permute_rows_mset:
  assumes "draw_ok rk"
  shows "list_all2 (\<lambda>r p. mset p = mset r) rows (fst (permute_rows rk rows st))"
proof (induction rows arbitrary: st)
  case Nil
  then show ?case by simp
next
  case (Cons r rows)
  obtain p st1 where p: "permutation rk r st = (p, st1)" by (cases "permutation rk r st")
  obtain ps st2 where ps: "permute_rows rk rows st1 = (ps, st2)"
    by (cases "permute_rows rk rows st1")
  from permutation_mset[OF assms, of r st] p have "mset p = mset r" by simp
  moreover from Cons.IH[of st1] ps have "list_all2 (\<lambda>r p. mset p = mset r) rows ps" by simp
  ultimately show ?case using p ps by simp
qed

lemma mset_row_facts:
  fixes p r :: "real list"
  assumes "mset p = mset r"
  shows "length p = length r \<and> sum_list p = sum_list r"
proof -
  from assms have "size (mset p) = size (mset r)" by simp
  moreover from assms have "sum_mset (mset p) = sum_mset (mset r)" by simp
  ultimately show ?thesis by (simp add: sum_mset_sum_list)
qed

text \<open>
  C10. With a generator whose bounded draw stays within its bound, on a training frame
  with at least one gene (the script normalises the frame before the loop, which rejects
  a frame of no gene), \<open>shuffle_train_genes\<close> returns a frame of the same shape, the same
  row labels and the same column labels, in which every row is a permutation of the
  corresponding input row: the same multiset of values, so the same sum. The labels are
  those of \<open>rnaseq_train_df\<close>, which is the argument at the only call.
\<close>

theorem shuffle_train_genes_permutes:
  assumes "draw_ok rk" and "frame_ok train_df" and "columns train_df \<noteq> []"
    and "index rnaseq_train_df = index train_df"
    and "columns rnaseq_train_df = columns train_df"
  shows "\<exists>shuf st1. shuffle_train_genes rk rnaseq_train_df train_df st = Inr (shuf, st1)
           \<and> shape shuf = shape train_df \<and> frame_ok shuf
           \<and> index shuf = index train_df \<and> columns shuf = columns train_df
           \<and> list_all2 (\<lambda>r p. mset p = mset r \<and> sum_list p = sum_list r)
                (vals train_df) (vals shuf)"
proof -
  obtain rows st1 where rows: "permute_rows rk (vals train_df) st = (rows, st1)"
    by (cases "permute_rows rk (vals train_df) st")
  from permute_rows_mset[OF assms(1), of "vals train_df" st] rows
  have perm: "list_all2 (\<lambda>r p. mset p = mset r) (vals train_df) rows" by simp
  then have both: "list_all2 (\<lambda>r p. mset p = mset r \<and> sum_list p = sum_list r) (vals train_df) rows"
    by (rule list_all2_mono) (auto dest: mset_row_facts)
  from perm have len: "length rows = length (vals train_df)"
    by (simp add: list_all2_lengthD)
  have rowlen: "length p = length (columns train_df)" if "p \<in> set rows" for p
  proof -
    from that obtain n where n: "n < length rows" "rows ! n = p" by (auto simp: in_set_conv_nth)
    with perm len have "mset p = mset (vals train_df ! n)" by (auto simp: list_all2_conv_all_nth)
    then have "length p = length (vals train_df ! n)" using mset_row_facts by blast
    moreover from assms(2) n len have "length (vals train_df ! n) = length (columns train_df)"
      by (simp add: frame_ok_def is_matrix_def list_all_length)
    ultimately show ?thesis by simp
  qed
  from assms(2) len have "is_matrix (length (index train_df)) (length (columns train_df)) rows"
    using rowlen by (simp add: frame_ok_def is_matrix_def list_all_iff)
  then show ?thesis
    using rows both assms(4,5)
    by (simp add: shuffle_train_genes_def DataFrame_def shape_def frame_ok_def)
qed

lemma ex_draw_ok: "draw_ok ex_draw"
  by (simp add: draw_ok_def ex_draw_def)

theorem shuffle_train_genes_permutes_witness:
  "draw_ok ex_draw \<and> frame_ok ex_train2 \<and> columns ex_train2 \<noteq> []
   \<and> shuffle_train_genes ex_draw ex_train2 ex_train2 0
       = Inr (ex_train2\<lparr>vals := [[1, 0], [2, 5]]\<rparr>, 2)
   \<and> mset [1, 0 :: real] = mset [0, 1] \<and> sum_list [1, 0 :: real] = sum_list [0, 1]"
proof -
  have f: "frame_ok ex_train2" by (simp add: frame_ok_def is_matrix_def ex_train2_def)
  have c: "columns ex_train2 \<noteq> []" by (simp add: ex_train2_def)
  have e: "shuffle_train_genes ex_draw ex_train2 ex_train2 0
       = Inr (ex_train2\<lparr>vals := [[1, 0], [2, 5]]\<rparr>, 2)"
    by (simp add: shuffle_train_genes_def permutation_def ex_draw_def DataFrame_def is_matrix_def
        ex_train2_def numeral_2_eq_2)
  from shuffle_train_genes_permutes[OF ex_draw_ok f c refl refl, of 0] e ex_draw_ok f c
  show ?thesis by simp
qed

subsection \<open>The random seeds\<close>

lemma randint_length: "length (fst (randint rk low high n st)) = n"
  by (induction n arbitrary: st) (simp_all add: Let_def case_prod_beta)

lemma randint_bound:
  assumes "draw_ok rk" and "low < high"
  shows "list_all (\<lambda>v. low \<le> v \<and> v < high) (fst (randint rk low high n st))"
proof (induction n arbitrary: st)
  case 0
  then show ?case by simp
next
  case (Suc n)
  obtain v st1 where v: "rk (high - low - 1) st = (v, st1)" by (cases "rk (high - low - 1) st")
  from assms(1) have "fst (rk (high - low - 1) st) \<le> high - low - 1"
    unfolding draw_ok_def by blast
  with v assms(2) have "low + v < high" by simp
  with Suc[of st1] v show ?case by (simp add: Let_def case_prod_beta)
qed

lemma draw_seeds_length: "length (draw_seeds env master n) = n"
  using randint_length[of "rk_interval env" 0 1000000 n "np_seed env master"]
  by (simp add: draw_seeds_def choice_def Let_def case_prod_beta)

lemma draw_seeds_bound:
  assumes "draw_ok (rk_interval env)"
  shows "list_all (\<lambda>s. s < 1000000) (draw_seeds env master n)"
proof -
  let ?idx = "fst (randint (rk_interval env) 0 1000000 n (np_seed env master))"
  from randint_bound[OF assms, of 0 1000000 n "np_seed env master"]
  have b: "list_all (\<lambda>v. v < 1000000) ?idx" by simp
  have "draw_seeds env master n = map (\<lambda>i. [0..<1000000] ! i) ?idx"
    by (simp add: draw_seeds_def choice_def Let_def case_prod_beta)
  also have "\<dots> = ?idx"
    using b by (intro map_idI) (simp add: list_all_iff)
  finally show ?thesis using b by simp
qed

lemma draw_seeds_pigeonhole:
  assumes "draw_ok (rk_interval env)" and "1000000 < n"
  shows "\<not> distinct (draw_seeds env master n)"
proof
  assume d: "distinct (draw_seeds env master n)"
  from draw_seeds_bound[OF assms(1), of master n]
  have "set (draw_seeds env master n) \<subseteq> {..<1000000}" by (auto simp: list_all_iff)
  then have "card (set (draw_seeds env master n)) \<le> card {..<1000000::nat}"
    by (intro card_mono) simp_all
  moreover from d have "card (set (draw_seeds env master n)) = n"
    by (simp add: distinct_card draw_seeds_length)
  ultimately show False using assms(2) by simp
qed

subsection \<open>The seed column of the table\<close>

lemma init_no_attrs:
  assumes "init_DataModel rt fn d sel gm tfn tdf = Inr dm"
  shows "pca_attrs dm = None \<and> ica_attrs dm = None \<and> nmf_attrs dm = None \<and> plier_attrs dm = None"
  using assms
  by (auto simp: init_DataModel_def Let_def split: sum.splits if_splits option.splits)

lemma transform_attrs:
  assumes "transform how dm = Inr d"
  shows "pca_attrs d = pca_attrs dm \<and> ica_attrs d = ica_attrs dm \<and> nmf_attrs d = nmf_attrs dm
         \<and> plier_attrs d = plier_attrs dm"
  using assms
  by (auto simp: transform_def Let_def split: sum.splits option.splits)

lemma pca_attrs_after:
  assumes "pca ft k td ttd dm = Inr (d, out)"
  shows "pca_attrs d \<noteq> None \<and> ica_attrs d = ica_attrs dm \<and> nmf_attrs d = nmf_attrs dm
         \<and> plier_attrs d = plier_attrs dm"
  using assms by (auto simp: pca_def split: sum.splits prod.splits)

lemma ica_attrs_after:
  assumes "ica ft k td ttd dm = Inr (d, out)"
  shows "ica_attrs d \<noteq> None \<and> pca_attrs d = pca_attrs dm \<and> nmf_attrs d = nmf_attrs dm
         \<and> plier_attrs d = plier_attrs dm"
  using assms by (auto simp: ica_def split: sum.splits prod.splits)

lemma nmf_attrs_after:
  assumes "nmf ft k td ttd dm = Inr (d, out)"
  shows "nmf_attrs d \<noteq> None \<and> pca_attrs d = pca_attrs dm \<and> ica_attrs d = ica_attrs dm
         \<and> plier_attrs d = plier_attrs dm"
  using assms by (auto simp: nmf_def split: sum.splits prod.splits)

lemma plier_attrs_after:
  assumes "plier rp ridge k pf td ttd sh s vb sc files dm = Inr (d, ret, files')"
  shows "plier_attrs d \<noteq> None"
  using plier_weights_frame[OF assms] by auto

lemma prepare_model_attrs:
  assumes "prepare_model env a tr te s dm = Inr (dm1, st)" and "only_requested a dm"
  shows "only_requested a dm1"
proof (cases "shuffle a")
  case True
  with assms(1) obtain sh st1 dm0 where
    "init_DataModel (read_table env) None (Some sh) [] None None (Some te) = Inr dm0"
    "transform ''zscore'' dm0 = Inr dm1"
    by (auto simp: prepare_model_def split: sum.splits prod.splits)
  from init_no_attrs[OF this(1)] transform_attrs[OF this(2)]
  show ?thesis by (simp add: only_requested_def)
next
  case False
  with assms show ?thesis by (simp add: prepare_model_def)
qed

lemma fit_models_attrs:
  assumes f: "fit_models env a s st files dm1 = Inr (dm5, files')"
    and p: "plier_attrs dm5 = None" and o: "only_requested a dm1"
  shows "(pca_attrs dm5 \<noteq> None) = (''pca'' \<in> set (algs_to_run a))
       \<and> (ica_attrs dm5 \<noteq> None) = (''ica'' \<in> set (algs_to_run a))
       \<and> (nmf_attrs dm5 \<noteq> None) = (''nmf'' \<in> set (algs_to_run a))"
proof -
  let ?k = "num_components a" and ?algs = "algs_to_run a"
  from f obtain dm2 where s1: "(if ''pca'' \<in> set ?algs then
                 (case pca (PCA env ?k st) ?k False True dm1 of
                    Inl e \<Rightarrow> Inl e | Inr (d, out) \<Rightarrow> Inr d)
               else Inr dm1) = Inr dm2"
    by (cases "(if ''pca'' \<in> set ?algs then
                 (case pca (PCA env ?k st) ?k False True dm1 of
                    Inl e \<Rightarrow> Inl e | Inr (d, out) \<Rightarrow> Inr d)
               else Inr dm1)") (simp_all add: fit_models_def Let_def)
  from f s1 obtain dm3 where s2: "(if ''ica'' \<in> set ?algs then
                  (case ica (FastICA env ?k s) ?k False True dm2 of
                     Inl e \<Rightarrow> Inl e | Inr (d, out) \<Rightarrow> Inr d)
                else Inr dm2) = Inr dm3"
    by (cases "(if ''ica'' \<in> set ?algs then
                  (case ica (FastICA env ?k s) ?k False True dm2 of
                     Inl e \<Rightarrow> Inl e | Inr (d, out) \<Rightarrow> Inr d)
                else Inr dm2)") (simp_all add: fit_models_def Let_def)
  from f s1 s2 obtain dm4 where s3: "(if ''nmf'' \<in> set ?algs then
                  (case nmf (NMF env ?k s) ?k False True dm3 of
                     Inl e \<Rightarrow> Inl e | Inr (d, out) \<Rightarrow> Inr d)
                else Inr dm3) = Inr dm4"
    by (cases "(if ''nmf'' \<in> set ?algs then
                  (case nmf (NMF env ?k s) ?k False True dm3 of
                     Inl e \<Rightarrow> Inl e | Inr (d, out) \<Rightarrow> Inr d)
                else Inr dm3)") (simp_all add: fit_models_def Let_def)
  from f s1 s2 s3 have s4: "(if ''plier'' \<in> set ?algs then
               (case plier (run_plier env) (ridge_regression env) ?k (pathways_file a) False True
                       (shuffle a) s (verbose a) False files dm4 of
                  Inl e \<Rightarrow> Inl e | Inr (d, out, files1) \<Rightarrow> Inr (d, files1))
             else Inr (dm4, files)) = Inr (dm5, files')"
    by (simp add: fit_models_def Let_def)
  have e4: "dm5 = dm4"
  proof (cases "''plier'' \<in> set ?algs")
    case True
    with s4 obtain out where "plier (run_plier env) (ridge_regression env) ?k (pathways_file a)
        False True (shuffle a) s (verbose a) False files dm4 = Inr (dm5, out, files')"
      by (auto split: sum.splits prod.splits)
    from plier_attrs_after[OF this] p show ?thesis by simp
  next
    case False
    with s4 show ?thesis by simp
  qed
  have a2: "(pca_attrs dm2 \<noteq> None) = (''pca'' \<in> set ?algs) \<and> ica_attrs dm2 = ica_attrs dm1
            \<and> nmf_attrs dm2 = nmf_attrs dm1"
  proof (cases "''pca'' \<in> set ?algs")
    case True
    with s1 obtain out where "pca (PCA env ?k st) ?k False True dm1 = Inr (dm2, out)"
      by (auto split: sum.splits prod.splits)
    from pca_attrs_after[OF this] True show ?thesis by simp
  next
    case False
    with s1 o show ?thesis by (auto simp: only_requested_def)
  qed
  have a3: "(ica_attrs dm3 \<noteq> None) = (''ica'' \<in> set ?algs) \<and> pca_attrs dm3 = pca_attrs dm2
            \<and> nmf_attrs dm3 = nmf_attrs dm2"
  proof (cases "''ica'' \<in> set ?algs")
    case True
    with s2 obtain out where "ica (FastICA env ?k s) ?k False True dm2 = Inr (dm3, out)"
      by (auto split: sum.splits prod.splits)
    from ica_attrs_after[OF this] True show ?thesis by simp
  next
    case False
    with s2 o a2 show ?thesis by (auto simp: only_requested_def)
  qed
  have a4: "(nmf_attrs dm4 \<noteq> None) = (''nmf'' \<in> set ?algs) \<and> pca_attrs dm4 = pca_attrs dm3
            \<and> ica_attrs dm4 = ica_attrs dm3"
  proof (cases "''nmf'' \<in> set ?algs")
    case True
    with s3 obtain out where "nmf (NMF env ?k s) ?k False True dm3 = Inr (dm4, out)"
      by (auto split: sum.splits prod.splits)
    from nmf_attrs_after[OF this] True show ?thesis by simp
  next
    case False
    with s3 o a2 a3 show ?thesis by (auto simp: only_requested_def)
  qed
  from a2 a3 a4 e4 show ?thesis by simp
qed

lemma add_methods_length:
  "add_methods ts inp g ms = Inr rs \<Longrightarrow> length rs = length ms"
  by (induction ms arbitrary: rs) (auto split: sum.splits prod.splits)

lemma compile_reconstruction_scores:
  assumes "compile_reconstruction dm ts = Inr (sc, mats)"
  shows "plier_attrs dm = None \<and> (sc = []) = (sklearn_methods dm = [])"
proof -
  from assms obtain rs where rs: "add_methods ts (if ts then test_df dm else Some (df dm))
      (real (num_genes dm)) (sklearn_methods dm) = Inr rs"
    by (auto simp: compile_reconstruction_def Let_def split: sum.splits)
  from assms rs have p: "plier_attrs dm = None"
    by (auto simp: compile_reconstruction_def Let_def split: sum.splits option.splits)
  with assms rs have "sc = map (\<lambda>(n, c, f). (n, c)) rs"
    by (auto simp: compile_reconstruction_def Let_def)
  with add_methods_length[OF rs] p show ?thesis by auto
qed

lemma sklearn_methods_empty:
  "(sklearn_methods dm = []) = (pca_attrs dm = None \<and> ica_attrs dm = None \<and> nmf_attrs dm = None)"
  by (auto simp: sklearn_methods_def split: option.splits)

lemma evaluate_models_rows:
  assumes "evaluate_models dm s sh = Inr (r1, r2)"
  shows "plier_attrs dm = None
       \<and> map seed r1 = (if sklearn_methods dm = [] then [] else [s])
       \<and> map seed r2 = (if sklearn_methods dm = [] then [] else [s])"
proof -
  from assms obtain sc1 m1 sc2 m2 where
    c1: "compile_reconstruction dm False = Inr (sc1, m1)" and
    c2: "compile_reconstruction dm True = Inr (sc2, m2)" and
    r: "r1 = assign_seed sc1 s sh" "r2 = assign_seed sc2 s sh"
    by (auto simp: evaluate_models_def split: sum.splits prod.splits)
  from compile_reconstruction_scores[OF c1] compile_reconstruction_scores[OF c2] r
  show ?thesis by (auto simp: assign_seed_def)
qed

lemma seed_iteration_rows:
  assumes it: "seed_iteration env a tr te s state = Inr (state1, r1, r2)"
    and o: "only_requested a (fst state)"
  shows "only_requested a (fst state1)
       \<and> map seed r1 = (if sklearn_requested a then [s] else [])
       \<and> map seed r2 = (if sklearn_requested a then [s] else [])"
proof -
  from it obtain dm1 st where p: "prepare_model env a tr te s (fst state) = Inr (dm1, st)"
    by (auto simp: seed_iteration_def split: sum.splits prod.splits)
  from it p obtain dm5 files where f: "fit_models env a s st (snd state) dm1 = Inr (dm5, files)"
    by (auto simp: seed_iteration_def split: sum.splits prod.splits)
  from it p f have e: "evaluate_models dm5 s (shuffle a) = Inr (r1, r2)" and s1: "state1 = (dm5, files)"
    by (auto simp: seed_iteration_def split: sum.splits prod.splits)
  from evaluate_models_rows[OF e] have pl: "plier_attrs dm5 = None"
    and rows: "map seed r1 = (if sklearn_methods dm5 = [] then [] else [s])"
      "map seed r2 = (if sklearn_methods dm5 = [] then [] else [s])"
    by simp_all
  from fit_models_attrs[OF f pl prepare_model_attrs[OF p o]]
  have at: "(pca_attrs dm5 \<noteq> None) = (''pca'' \<in> set (algs_to_run a))"
    "(ica_attrs dm5 \<noteq> None) = (''ica'' \<in> set (algs_to_run a))"
    "(nmf_attrs dm5 \<noteq> None) = (''nmf'' \<in> set (algs_to_run a))"
    by simp_all
  then have "(sklearn_methods dm5 = []) = (\<not> sklearn_requested a)"
    by (auto simp: sklearn_methods_empty sklearn_requested_def)
  moreover from at have "only_requested a dm5" by (auto simp: only_requested_def)
  ultimately show ?thesis using rows s1 by simp
qed

lemma per_seed_loop_rows:
  assumes "per_seed_loop env a tr te seeds state (acc1, acc2) = Inr (state1, res1, res2)"
    and "only_requested a (fst state)"
  shows "map seed (concat res1) = map seed (concat acc1) @ (if sklearn_requested a then seeds else [])
       \<and> map seed (concat res2) = map seed (concat acc2) @ (if sklearn_requested a then seeds else [])"
  using assms
proof (induction seeds arbitrary: state acc1 acc2)
  case Nil
  then show ?case by simp
next
  case (Cons s seeds)
  from Cons.prems(1) obtain st1 r1 r2 where
    it: "seed_iteration env a tr te s state = Inr (st1, r1, r2)"
    by (auto split: sum.splits prod.splits)
  with Cons.prems(1) have
    l: "per_seed_loop env a tr te seeds st1 (acc1 @ [r1], acc2 @ [r2]) = Inr (state1, res1, res2)"
    by simp
  from seed_iteration_rows[OF it Cons.prems(2)] have o: "only_requested a (fst st1)"
    and r: "map seed r1 = (if sklearn_requested a then [s] else [])"
      "map seed r2 = (if sklearn_requested a then [s] else [])"
    by simp_all
  from Cons.IH[OF l o] r show ?case by simp
qed

lemma run_seed_column:
  assumes "run env a tr te files = Inr table"
  shows "map seed table =
           (if sklearn_requested a
            then draw_seeds env default_seed (num_seeds a) @ draw_seeds env default_seed (num_seeds a)
            else [])"
proof -
  from assms obtain dm0 where i: "init_DataModel (read_table env) None (Some tr) [] None None
      (Some te) = Inr dm0"
    by (auto simp: run_def split: sum.splits)
  from assms i obtain dm where t: "transform ''zscore'' dm0 = Inr dm"
    by (auto simp: run_def split: sum.splits)
  from assms i t obtain state res1 res2 where
    l: "per_seed_loop env a tr te (draw_seeds env default_seed (num_seeds a)) (dm, files) ([], [])
          = Inr (state, res1, res2)"
    by (auto simp: run_def split: sum.splits prod.splits)
  from assms i t l have tab: "table = map (\<lambda>r. r\<lparr>data_type := ''training''\<rparr>) (concat res1)
                              @ map (\<lambda>r. r\<lparr>data_type := ''testing''\<rparr>) (concat res2)"
    by (auto simp: run_def split: if_splits)
  from init_no_attrs[OF i] transform_attrs[OF t] have "only_requested a (fst (dm, files))"
    by (simp add: only_requested_def)
  from per_seed_loop_rows[OF l this] tab show ?thesis by (simp add: comp_def)
qed

lemmas driver_defs = run_def seed_iteration_def prepare_model_def fit_models_def
  evaluate_models_def algs_to_run_def list_algorithms_def init_DataModel_def transform_def
  method_tables_def write_models_def write_to_file_def sklearn_methods_def
  compile_reconstruction_def add_method_reconstruction_def assign_seed_def

lemma ex_env_sel:
  "np_seed ex_env = (\<lambda>n. n)" "rk_interval ex_env = ex_draw"
  "PCA ex_env = (\<lambda>k st. ex_fit k)" "FastICA ex_env = (\<lambda>k s. ex_fit k)"
  "NMF ex_env = (\<lambda>k s. ex_nmf k)" "ridge_regression ex_env = ex_ridge"
  "run_plier ex_env = ex_solver" "read_table ex_env = no_files"
  by (simp_all add: ex_env_def)

lemma ex_env_ica_sel:
  "np_seed ex_env_ica = (\<lambda>n. n)" "rk_interval ex_env_ica = ex_draw"
  "PCA ex_env_ica = (\<lambda>k st. ex_fit k)"
  "FastICA ex_env_ica = (\<lambda>k s X. if s = 43 then Inl ValueError else ex_fit k X)"
  "NMF ex_env_ica = (\<lambda>k s. ex_nmf k)" "ridge_regression ex_env_ica = ex_ridge"
  "run_plier ex_env_ica = ex_solver" "read_table ex_env_ica = no_files"
  by (simp_all add: ex_env_ica_def ex_env_def)

lemma ex_seeds2: "draw_seeds ex_env default_seed 2 = [42, 43]"
  by (simp add: draw_seeds_def choice_def ex_env_sel ex_draw_def default_seed_def numeral_2_eq_2)

lemma ex_seeds3: "draw_seeds ex_env_ica default_seed 3 = [42, 43, 44]"
  by (simp add: draw_seeds_def choice_def ex_env_ica_sel ex_draw_def default_seed_def numeral_3_eq_3)

lemma ex_seeds1: "draw_seeds ex_env_ica default_seed (Suc 0) = [42]"
  by (simp add: draw_seeds_def choice_def ex_env_ica_sel ex_draw_def default_seed_def)

lemmas ex_defs = ex_args_def ex_train_def ex_test_def ex_fit_def ex_nmf_def
  ex_estimator_def ex_draw_def no_output_def

text \<open>
  C3 (as amended). With a generator whose bounded draw stays within its bound, the seeds
  of a run are \<open>draw_seeds\<close> of the master seed and the count: a function of the
  generator, the master seed and the count alone, of the length asked for, every seed
  below 1000000. Two runs that differ in the shuffle flag alone and both end with a table
  have the same \<open>seed\<close> column: the seed sequence of the master seed \<open>default_seed\<close>,
  once for the training rows and once for the testing rows, when one of \<open>pca\<close>,
  \<open>ica\<close>, \<open>nmf\<close> is asked for, and no row otherwise. The seeds are drawn with
  replacement: nothing makes them pairwise different.
\<close>

theorem seed_sequence:
  assumes "draw_ok (rk_interval env)"
  shows "length (draw_seeds env master n) = n
       \<and> list_all (\<lambda>s. s < 1000000) (draw_seeds env master n)
       \<and> (run env (a\<lparr>shuffle := True\<rparr>) tr te files = Inr table_on
          \<and> run env (a\<lparr>shuffle := False\<rparr>) tr te files = Inr table_off
          \<longrightarrow> map seed table_on = map seed table_off
              \<and> map seed table_off =
                  (if sklearn_requested a
                   then draw_seeds env default_seed (num_seeds a)
                        @ draw_seeds env default_seed (num_seeds a)
                   else []))"
proof (intro conjI impI)
  show "length (draw_seeds env master n) = n" by (rule draw_seeds_length)
  show "list_all (\<lambda>s. s < 1000000) (draw_seeds env master n)"
    by (rule draw_seeds_bound[OF assms])
next
  assume r: "run env (a\<lparr>shuffle := True\<rparr>) tr te files = Inr table_on
          \<and> run env (a\<lparr>shuffle := False\<rparr>) tr te files = Inr table_off"
  have [simp]: "sklearn_requested (a\<lparr>shuffle := b\<rparr>) = sklearn_requested a" for b
    by (simp add: sklearn_requested_def algs_to_run_def)
  from r run_seed_column[of env "a\<lparr>shuffle := True\<rparr>" tr te files table_on]
    run_seed_column[of env "a\<lparr>shuffle := False\<rparr>" tr te files table_off]
  show "map seed table_on = map seed table_off" by simp
  from r run_seed_column[of env "a\<lparr>shuffle := False\<rparr>" tr te files table_off]
  show "map seed table_off =
                  (if sklearn_requested a
                   then draw_seeds env default_seed (num_seeds a)
                        @ draw_seeds env default_seed (num_seeds a)
                   else [])" by simp
qed

theorem seed_sequence_witness:
  "draw_ok (rk_interval ex_env)
   \<and> length (draw_seeds ex_env default_seed 2) = 2
   \<and> list_all (\<lambda>s. s < 1000000) (draw_seeds ex_env default_seed 2)
   \<and> run ex_env (ex_args\<lparr>shuffle := True\<rparr>) ex_train ex_test no_output =
       Inr [\<lparr>scores = [(''pca'', approx_keras_binary_cross_entropy [[- 1], [1]] [[- 1], [1]] 1 (1 / 10000000))],
            seed = 42, shuffled = True, data_type = ''training''\<rparr>,
           \<lparr>scores = [(''pca'', approx_keras_binary_cross_entropy [[- 1], [1]] [[- 1], [1]] 1 (1 / 10000000))],
            seed = 43, shuffled = True, data_type = ''training''\<rparr>,
           \<lparr>scores = [(''pca'', approx_keras_binary_cross_entropy [[- 1], [1]] [[- 1], [1]] 1 (1 / 10000000))],
            seed = 42, shuffled = True, data_type = ''testing''\<rparr>,
           \<lparr>scores = [(''pca'', approx_keras_binary_cross_entropy [[- 1], [1]] [[- 1], [1]] 1 (1 / 10000000))],
            seed = 43, shuffled = True, data_type = ''testing''\<rparr>]
   \<and> run ex_env (ex_args\<lparr>shuffle := False\<rparr>) ex_train ex_test no_output =
       Inr [\<lparr>scores = [(''pca'', approx_keras_binary_cross_entropy [[- 1], [1]] [[- 1], [1]] 1 (1 / 10000000))],
            seed = 42, shuffled = False, data_type = ''training''\<rparr>,
           \<lparr>scores = [(''pca'', approx_keras_binary_cross_entropy [[- 1], [1]] [[- 1], [1]] 1 (1 / 10000000))],
            seed = 43, shuffled = False, data_type = ''training''\<rparr>,
           \<lparr>scores = [(''pca'', approx_keras_binary_cross_entropy [[- 1], [1]] [[- 1], [1]] 1 (1 / 10000000))],
            seed = 42, shuffled = False, data_type = ''testing''\<rparr>,
           \<lparr>scores = [(''pca'', approx_keras_binary_cross_entropy [[- 1], [1]] [[- 1], [1]] 1 (1 / 10000000))],
            seed = 43, shuffled = False, data_type = ''testing''\<rparr>]
   \<and> map seed [\<lparr>scores = [(''pca'', approx_keras_binary_cross_entropy [[- 1], [1]] [[- 1], [1]] 1 (1 / 10000000))],
            seed = 42, shuffled = True, data_type = ''training''\<rparr>,
           \<lparr>scores = [(''pca'', approx_keras_binary_cross_entropy [[- 1], [1]] [[- 1], [1]] 1 (1 / 10000000))],
            seed = 43, shuffled = True, data_type = ''training''\<rparr>,
           \<lparr>scores = [(''pca'', approx_keras_binary_cross_entropy [[- 1], [1]] [[- 1], [1]] 1 (1 / 10000000))],
            seed = 42, shuffled = True, data_type = ''testing''\<rparr>,
           \<lparr>scores = [(''pca'', approx_keras_binary_cross_entropy [[- 1], [1]] [[- 1], [1]] 1 (1 / 10000000))],
            seed = 43, shuffled = True, data_type = ''testing''\<rparr>] =
       map seed [\<lparr>scores = [(''pca'', approx_keras_binary_cross_entropy [[- 1], [1]] [[- 1], [1]] 1 (1 / 10000000))],
            seed = 42, shuffled = False, data_type = ''training''\<rparr>,
           \<lparr>scores = [(''pca'', approx_keras_binary_cross_entropy [[- 1], [1]] [[- 1], [1]] 1 (1 / 10000000))],
            seed = 43, shuffled = False, data_type = ''training''\<rparr>,
           \<lparr>scores = [(''pca'', approx_keras_binary_cross_entropy [[- 1], [1]] [[- 1], [1]] 1 (1 / 10000000))],
            seed = 42, shuffled = False, data_type = ''testing''\<rparr>,
           \<lparr>scores = [(''pca'', approx_keras_binary_cross_entropy [[- 1], [1]] [[- 1], [1]] 1 (1 / 10000000))],
            seed = 43, shuffled = False, data_type = ''testing''\<rparr>]
   \<and> sklearn_requested ex_args
   \<and> map seed [\<lparr>scores = [(''pca'', approx_keras_binary_cross_entropy [[- 1], [1]] [[- 1], [1]] 1 (1 / 10000000))],
            seed = 42, shuffled = False, data_type = ''training''\<rparr>,
           \<lparr>scores = [(''pca'', approx_keras_binary_cross_entropy [[- 1], [1]] [[- 1], [1]] 1 (1 / 10000000))],
            seed = 43, shuffled = False, data_type = ''training''\<rparr>,
           \<lparr>scores = [(''pca'', approx_keras_binary_cross_entropy [[- 1], [1]] [[- 1], [1]] 1 (1 / 10000000))],
            seed = 42, shuffled = False, data_type = ''testing''\<rparr>,
           \<lparr>scores = [(''pca'', approx_keras_binary_cross_entropy [[- 1], [1]] [[- 1], [1]] 1 (1 / 10000000))],
            seed = 43, shuffled = False, data_type = ''testing''\<rparr>] =
       draw_seeds ex_env default_seed (num_seeds ex_args)
       @ draw_seeds ex_env default_seed (num_seeds ex_args)"
  using seed_sequence [where env = ex_env and master = default_seed and n = 2 and a = ex_args
      and tr = ex_train and te = ex_test and files = no_output
      and table_on = "[\<lparr>scores = [(''pca'', approx_keras_binary_cross_entropy [[- 1], [1]] [[- 1], [1]] 1 (1 / 10000000))],
            seed = 42, shuffled = True, data_type = ''training''\<rparr>,
           \<lparr>scores = [(''pca'', approx_keras_binary_cross_entropy [[- 1], [1]] [[- 1], [1]] 1 (1 / 10000000))],
            seed = 43, shuffled = True, data_type = ''training''\<rparr>,
           \<lparr>scores = [(''pca'', approx_keras_binary_cross_entropy [[- 1], [1]] [[- 1], [1]] 1 (1 / 10000000))],
            seed = 42, shuffled = True, data_type = ''testing''\<rparr>,
           \<lparr>scores = [(''pca'', approx_keras_binary_cross_entropy [[- 1], [1]] [[- 1], [1]] 1 (1 / 10000000))],
            seed = 43, shuffled = True, data_type = ''testing''\<rparr>]"
      and table_off = "[\<lparr>scores = [(''pca'', approx_keras_binary_cross_entropy [[- 1], [1]] [[- 1], [1]] 1 (1 / 10000000))],
            seed = 42, shuffled = False, data_type = ''training''\<rparr>,
           \<lparr>scores = [(''pca'', approx_keras_binary_cross_entropy [[- 1], [1]] [[- 1], [1]] 1 (1 / 10000000))],
            seed = 43, shuffled = False, data_type = ''training''\<rparr>,
           \<lparr>scores = [(''pca'', approx_keras_binary_cross_entropy [[- 1], [1]] [[- 1], [1]] 1 (1 / 10000000))],
            seed = 42, shuffled = False, data_type = ''testing''\<rparr>,
           \<lparr>scores = [(''pca'', approx_keras_binary_cross_entropy [[- 1], [1]] [[- 1], [1]] 1 (1 / 10000000))],
            seed = 43, shuffled = False, data_type = ''testing''\<rparr>]"]
  by (simp add: ex_seeds2 frame_defs scaler_defs method_defs driver_defs ex_defs ex_env_sel
      shuffle_train_genes_def permutation_def draw_ok_def sklearn_requested_def)

text \<open>
  C3 as stated fails: the seeds are drawn from the 1000000 numbers below 1000000 with
  replacement, so a sequence of 1000001 seeds repeats one (for every generator, by
  \<open>draw_seeds_pigeonhole\<close>).
\<close>

theorem seeds_unique_counterexample:
  "\<not> distinct (draw_seeds ex_env default_seed 1000001)"
  by (rule draw_seeds_pigeonhole) (simp_all add: ex_env_def ex_draw_ok)

subsection \<open>Failures in the loop\<close>

lemma per_seed_loop_prefix_fails:
  "per_seed_loop env a tr te pre state (acc1, acc2) = Inl e \<Longrightarrow>
   per_seed_loop env a tr te (pre @ rest) state (acc1, acc2) = Inl e"
  by (induction pre arbitrary: state acc1 acc2) (auto split: sum.splits prod.splits)

lemma per_seed_loop_seed_fails:
  assumes "s \<in> set seeds" and "\<And>state. \<exists>e. seed_iteration env a tr te s state = Inl e"
  shows "\<exists>e. per_seed_loop env a tr te seeds state (acc1, acc2) = Inl e"
  using assms(1)
proof (induction seeds arbitrary: state acc1 acc2)
  case Nil
  then show ?case by simp
next
  case (Cons x seeds)
  show ?case
  proof (cases "seed_iteration env a tr te x state")
    case (Inl e)
    then show ?thesis by simp
  next
    case (Inr r)
    obtain st1 r1 r2 where r: "r = (st1, r1, r2)" by (cases r)
    from Inr r assms(2)[of state] have "x \<noteq> s" by auto
    with Cons.prems have "s \<in> set seeds" by simp
    from Cons.IH[OF this, of st1 "acc1 @ [r1]" "acc2 @ [r2]"] Inr r show ?thesis by simp
  qed
qed

lemma fit_method_fails:
  "ft (vals (df dm)) = Inl e \<Longrightarrow> fit_method prefix ft k td ttd old dm = Inl e"
  by (simp add: fit_method_def)

lemma fit_models_fails:
  assumes "(''pca'' \<in> set (algs_to_run a) \<and> (\<forall>st X. \<exists>e. PCA env (num_components a) st X = Inl e))
         \<or> (''ica'' \<in> set (algs_to_run a) \<and> (\<forall>X. \<exists>e. FastICA env (num_components a) s X = Inl e))
         \<or> (''nmf'' \<in> set (algs_to_run a) \<and> (\<forall>X. \<exists>e. NMF env (num_components a) s X = Inl e))"
  shows "\<exists>e. fit_models env a s st files dm1 = Inl e"
proof -
  let ?k = "num_components a" and ?algs = "algs_to_run a"
  let ?s1 = "(if ''pca'' \<in> set ?algs then
                 (case pca (PCA env ?k st) ?k False True dm1 of
                    Inl e \<Rightarrow> Inl e | Inr (d, out) \<Rightarrow> Inr d)
               else Inr dm1)"
  have pca_f: "\<exists>e. pca (PCA env ?k st) ?k False True d = Inl e"
    if "\<forall>st X. \<exists>e. PCA env ?k st X = Inl e" for d
  proof -
    from that obtain e where "PCA env ?k st (vals (df d)) = Inl e" by blast
    from fit_method_fails[of "PCA env ?k st" d e] this show ?thesis by (simp add: pca_def)
  qed
  have ica_f: "\<exists>e. ica (FastICA env ?k s) ?k False True d = Inl e"
    if "\<forall>X. \<exists>e. FastICA env ?k s X = Inl e" for d
  proof -
    from that obtain e where "FastICA env ?k s (vals (df d)) = Inl e" by blast
    from fit_method_fails[of "FastICA env ?k s" d e] this show ?thesis by (simp add: ica_def)
  qed
  have nmf_f: "\<exists>e. nmf (NMF env ?k s) ?k False True d = Inl e"
    if "\<forall>X. \<exists>e. NMF env ?k s X = Inl e" for d
  proof -
    from that obtain e where "NMF env ?k s (vals (df d)) = Inl e" by blast
    from fit_method_fails[of "NMF env ?k s" d e] this show ?thesis by (simp add: nmf_def)
  qed
  show ?thesis
  proof (cases ?s1)
    case (Inl e)
    then show ?thesis by (simp add: fit_models_def Let_def)
  next
    case s1: (Inr dm2)
    have np: "\<not> (''pca'' \<in> set ?algs \<and> (\<forall>st X. \<exists>e. PCA env ?k st X = Inl e))"
    proof
      assume h: "''pca'' \<in> set ?algs \<and> (\<forall>st X. \<exists>e. PCA env ?k st X = Inl e)"
      then obtain e where "pca (PCA env ?k st) ?k False True dm1 = Inl e"
        using pca_f[of dm1] by blast
      with h s1 show False by simp
    qed
    let ?s2 = "(if ''ica'' \<in> set ?algs then
                  (case ica (FastICA env ?k s) ?k False True dm2 of
                     Inl e \<Rightarrow> Inl e | Inr (d, out) \<Rightarrow> Inr d)
                else Inr dm2)"
    show ?thesis
    proof (cases ?s2)
      case (Inl e)
      with s1 show ?thesis by (simp add: fit_models_def Let_def)
    next
      case s2: (Inr dm3)
      have ni: "\<not> (''ica'' \<in> set ?algs \<and> (\<forall>X. \<exists>e. FastICA env ?k s X = Inl e))"
      proof
        assume h: "''ica'' \<in> set ?algs \<and> (\<forall>X. \<exists>e. FastICA env ?k s X = Inl e)"
        then obtain e where "ica (FastICA env ?k s) ?k False True dm2 = Inl e"
          using ica_f[of dm2] by blast
        with h s2 show False by simp
      qed
      from assms np ni have n: "''nmf'' \<in> set ?algs" "\<forall>X. \<exists>e. NMF env ?k s X = Inl e"
        by blast+
      from nmf_f[OF n(2), of dm3] obtain e where "nmf (NMF env ?k s) ?k False True dm3 = Inl e"
        by blast
      with s1 s2 n(1) show ?thesis by (simp add: fit_models_def Let_def)
    qed
  qed
qed

lemma seed_iteration_fails:
  assumes "\<And>st files dm1. \<exists>e. fit_models env a s st files dm1 = Inl e"
  shows "\<exists>e. seed_iteration env a tr te s state = Inl e"
proof (cases "prepare_model env a tr te s (fst state)")
  case (Inl e)
  then show ?thesis by (simp add: seed_iteration_def)
next
  case (Inr r)
  obtain dm1 st where r: "r = (dm1, st)" by (cases r)
  from assms[of st "snd state" dm1] obtain e where "fit_models env a s st (snd state) dm1 = Inl e"
    by blast
  with Inr r show ?thesis by (simp add: seed_iteration_def)
qed

text \<open>
  C2 (as amended). The script handles no exception: the first failure in the loop ends
  the run with that exception, and no table is written. When the loop over a prefix of the
  seed sequence fails with an exception, the run fails with the same exception. When a
  variant that is asked for cannot be fitted at one seed of the sequence (\<open>ica\<close> or
  \<open>nmf\<close> with that seed, \<open>pca\<close> at every state of the generator), the run fails.
\<close>

theorem failure_ends_run:
  "(init_DataModel (read_table env) None (Some tr) [] None None (Some te) = Inr dm0
     \<and> transform ''zscore'' dm0 = Inr dm
     \<and> draw_seeds env default_seed (num_seeds a) = pre @ rest
     \<and> per_seed_loop env a tr te pre (dm, files) ([], []) = Inl e
     \<longrightarrow> run env a tr te files = Inl e)
   \<and> (s \<in> set (draw_seeds env default_seed (num_seeds a))
      \<and> ((''pca'' \<in> set (algs_to_run a)
            \<and> (\<forall>st X. \<exists>e. PCA env (num_components a) st X = Inl e))
         \<or> (''ica'' \<in> set (algs_to_run a)
            \<and> (\<forall>X. \<exists>e. FastICA env (num_components a) s X = Inl e))
         \<or> (''nmf'' \<in> set (algs_to_run a)
            \<and> (\<forall>X. \<exists>e. NMF env (num_components a) s X = Inl e)))
      \<longrightarrow> (\<exists>e. run env a tr te files = Inl e))"
proof (intro conjI impI)
  assume h: "init_DataModel (read_table env) None (Some tr) [] None None (Some te) = Inr dm0
     \<and> transform ''zscore'' dm0 = Inr dm
     \<and> draw_seeds env default_seed (num_seeds a) = pre @ rest
     \<and> per_seed_loop env a tr te pre (dm, files) ([], []) = Inl e"
  then have "per_seed_loop env a tr te (pre @ rest) (dm, files) ([], []) = Inl e"
    by (simp add: per_seed_loop_prefix_fails)
  with h show "run env a tr te files = Inl e"
    by (simp add: run_def)
next
  assume h: "s \<in> set (draw_seeds env default_seed (num_seeds a))
      \<and> ((''pca'' \<in> set (algs_to_run a)
            \<and> (\<forall>st X. \<exists>e. PCA env (num_components a) st X = Inl e))
         \<or> (''ica'' \<in> set (algs_to_run a)
            \<and> (\<forall>X. \<exists>e. FastICA env (num_components a) s X = Inl e))
         \<or> (''nmf'' \<in> set (algs_to_run a)
            \<and> (\<forall>X. \<exists>e. NMF env (num_components a) s X = Inl e)))"
  then have fit: "\<exists>e. fit_models env a s st fs dm1 = Inl e" for st fs dm1
    by (intro fit_models_fails) blast
  then have it: "\<exists>e. seed_iteration env a tr te s state = Inl e" for state
    by (rule seed_iteration_fails)
  have loop: "\<exists>e. per_seed_loop env a tr te (draw_seeds env default_seed (num_seeds a))
                    state ([], []) = Inl e" for state
    using h it by (intro per_seed_loop_seed_fails) auto
  show "\<exists>e. run env a tr te files = Inl e"
  proof (cases "init_DataModel (read_table env) None (Some tr) [] None None (Some te)")
    case (Inl e)
    then show ?thesis by (simp add: run_def)
  next
    case i: (Inr dm0)
    show ?thesis
    proof (cases "transform ''zscore'' dm0")
      case (Inl e)
      with i show ?thesis by (simp add: run_def)
    next
      case (Inr dm)
      from loop[of "(dm, files)"] obtain e where
        "per_seed_loop env a tr te (draw_seeds env default_seed (num_seeds a))
           (dm, files) ([], []) = Inl e" by blast
      with i Inr show ?thesis by (simp add: run_def)
    qed
  qed
qed

theorem failure_ends_run_witness:
  "init_DataModel (read_table ex_env_ica) None (Some ex_train) [] None None (Some ex_test)
     = Inr ex_dm
   \<and> transform ''zscore'' ex_dm =
       Inr \<lparr>filename = None,
           df = \<lparr>index = [''s1'', ''s2''], columns = [''g1''], vals = [[- 1], [1]]\<rparr>,
           gene_modules = None, num_samples = 2, num_genes = 1, test_filename = None,
           test_df = Some \<lparr>index = [''t1'', ''t2''], columns = [''g1''], vals = [[- 1], [1]]\<rparr>,
           num_test_shape = None, transformation = Some ''zscore'',
           transform_fit = Some (StandardScaler [1] [1]),
           transform_test_fit = Some (StandardScaler [2] [2]),
           pca_attrs = None, ica_attrs = None, nmf_attrs = None, plier_attrs = None\<rparr>
   \<and> draw_seeds ex_env_ica default_seed (num_seeds ex_args_ica) = [42, 43] @ [44]
   \<and> per_seed_loop ex_env_ica ex_args_ica ex_train ex_test [42, 43]
        (\<lparr>filename = None,
           df = \<lparr>index = [''s1'', ''s2''], columns = [''g1''], vals = [[- 1], [1]]\<rparr>,
           gene_modules = None, num_samples = 2, num_genes = 1, test_filename = None,
           test_df = Some \<lparr>index = [''t1'', ''t2''], columns = [''g1''], vals = [[- 1], [1]]\<rparr>,
           num_test_shape = None, transformation = Some ''zscore'',
           transform_fit = Some (StandardScaler [1] [1]),
           transform_test_fit = Some (StandardScaler [2] [2]),
           pca_attrs = None, ica_attrs = None, nmf_attrs = None, plier_attrs = None\<rparr>, no_output) ([], []) = Inl ValueError
   \<and> run ex_env_ica ex_args_ica ex_train ex_test no_output = Inl ValueError
   \<and> 43 \<in> set (draw_seeds ex_env_ica default_seed (num_seeds ex_args_ica))
   \<and> ''ica'' \<in> set (algs_to_run ex_args_ica)
   \<and> (\<forall>X. \<exists>e. FastICA ex_env_ica (num_components ex_args_ica) 43 X = Inl e)
   \<and> (\<exists>e. run ex_env_ica ex_args_ica ex_train ex_test no_output = Inl e)"
  using failure_ends_run [where env = ex_env_ica and a = ex_args_ica and tr = ex_train
      and te = ex_test and files = no_output and dm0 = ex_dm and pre = "[42, 43]"
      and rest = "[44]" and e = ValueError and s = 43
      and dm = "\<lparr>filename = None,
           df = \<lparr>index = [''s1'', ''s2''], columns = [''g1''], vals = [[- 1], [1]]\<rparr>,
           gene_modules = None, num_samples = 2, num_genes = 1, test_filename = None,
           test_df = Some \<lparr>index = [''t1'', ''t2''], columns = [''g1''], vals = [[- 1], [1]]\<rparr>,
           num_test_shape = None, transformation = Some ''zscore'',
           transform_fit = Some (StandardScaler [1] [1]),
           transform_test_fit = Some (StandardScaler [2] [2]),
           pca_attrs = None, ica_attrs = None, nmf_attrs = None, plier_attrs = None\<rparr>"]
  by (simp add: ex_seeds3 ex_args_ica_def frame_defs scaler_defs method_defs driver_defs
      ex_defs ex_env_ica_sel ex_dm_def)

text \<open>
  C2 as stated fails: in a run of the three seeds 42, 43, 44 in which the FastICA fit
  raises ValueError at the seed 43 alone, the run ends with ValueError and writes no
  table, although the iteration of the seed 42 succeeds: the same run asked for one seed
  writes the two rows of the seed 42.
\<close>

theorem failure_isolation_counterexample:
  "draw_seeds ex_env_ica default_seed (num_seeds ex_args_ica) = [42, 43, 44]
   \<and> run ex_env_ica ex_args_ica ex_train ex_test no_output = Inl ValueError
   \<and> run ex_env_ica (ex_args_ica\<lparr>num_seeds := 1\<rparr>) ex_train ex_test no_output =
       Inr [\<lparr>scores = [(''ica'', approx_keras_binary_cross_entropy [[- 1], [1]] [[- 1], [1]] 1 (1 / 10000000))],
            seed = 42, shuffled = False, data_type = ''training''\<rparr>,
           \<lparr>scores = [(''ica'', approx_keras_binary_cross_entropy [[- 1], [1]] [[- 1], [1]] 1 (1 / 10000000))],
            seed = 42, shuffled = False, data_type = ''testing''\<rparr>]"
  by (simp add: ex_seeds3 ex_seeds1 ex_args_ica_def frame_defs
      scaler_defs method_defs driver_defs ex_defs ex_env_ica_sel)

end
